theory Spec2Isabelle
  imports Complex_Main
begin

section \<open>JavaScript numbers\<close>

text \<open>
  A JavaScript number is an IEEE 754 binary64 value: a finite number, one of the two zeros,
  one of the two infinities, or NaN. \<open>Fin x\<close> is the finite number with the real value
  \<open>x\<close>, and \<open>Fin 0\<close> is the positive zero; \<open>NegZero\<close> is the negative zero. The code can
  only pass and produce \<open>Fin x\<close> for reals \<open>x\<close> that binary64 represents; every arithmetic
  operation below rounds its exact result to such a real.
\<close>

datatype jsnum = Fin real | NegZero | PInf | NInf | NaN

fun is_finite :: "jsnum \<Rightarrow> bool" where
  "is_finite (Fin x) = True"
| "is_finite NegZero = True"
| "is_finite _ = False"

text \<open>The real value of a finite number, the sign bit, and the tests for zero and
  infinity.\<close>

fun val :: "jsnum \<Rightarrow> real" where
  "val (Fin x) = x"
| "val _ = 0"

fun negative :: "jsnum \<Rightarrow> bool" where
  "negative (Fin x) = (x < 0)"
| "negative NegZero = True"
| "negative NInf = True"
| "negative _ = False"

fun is_zero :: "jsnum \<Rightarrow> bool" where
  "is_zero (Fin x) = (x = 0)"
| "is_zero NegZero = True"
| "is_zero _ = False"

fun is_inf :: "jsnum \<Rightarrow> bool" where
  "is_inf PInf = True"
| "is_inf NInf = True"
| "is_inf _ = False"

definition zero_of :: "bool \<Rightarrow> jsnum" where
  "zero_of neg = (if neg then NegZero else Fin 0)"

definition inf_of :: "bool \<Rightarrow> jsnum" where
  "inf_of neg = (if neg then NInf else PInf)"

text \<open>
  Rounding to nearest, ties to even, the rounding of every JavaScript operation. \<open>rne\<close>
  rounds a real to an integer. \<open>expo x\<close> is the exponent of the binade of \<open>x\<close>, not below
  that of the subnormal numbers; the numbers of that binade are the multiples of
  \<open>2 powi (expo x - 52)\<close>. \<open>round64 x\<close> rounds the magnitude of \<open>x\<close> to such a multiple; a
  result of \<open>2 ^ 1024\<close> or more is an overflow to the infinity of the sign of \<open>x\<close>, and a
  result of zero is an underflow to the zero of the sign of \<open>x\<close>.
\<close>

definition rne :: "real \<Rightarrow> int" where
  "rne q =
     (let f = \<lfloor>q\<rfloor>
      in if q - of_int f < 1 / 2 then f
         else if 1 / 2 < q - of_int f then f + 1
         else if even f then f else f + 1)"

definition expo :: "real \<Rightarrow> int" where
  "expo x = max \<lfloor>log 2 \<bar>x\<bar>\<rfloor> (- 1022)"

definition huge :: real where
  "huge = 2 ^ 1024"

definition round64 :: "real \<Rightarrow> jsnum" where
  "round64 x =
     (if x = 0 then Fin 0
      else let u = 2 powi (expo x - 52);
               v = of_int (rne (\<bar>x\<bar> / u)) * u
           in if huge \<le> v then inf_of (x < 0)
              else if v = 0 then zero_of (x < 0)
              else Fin (if x < 0 then - v else v))"

text \<open>The value of a decimal literal of the source, and of a number in a JSON text: the
  binary64 number nearest to it.\<close>

definition number_literal :: "real \<Rightarrow> jsnum" where
  "number_literal x = round64 x"

text \<open>\<^verbatim>\<open>- a\<close>\<close>

fun js_neg :: "jsnum \<Rightarrow> jsnum" where
  "js_neg (Fin x) = (if x = 0 then NegZero else Fin (- x))"
| "js_neg NegZero = Fin 0"
| "js_neg PInf = NInf"
| "js_neg NInf = PInf"
| "js_neg NaN = NaN"

text \<open>
  \<^verbatim>\<open>a + b\<close>: infinities of opposite sign add to NaN; an exact sum of zero is the negative
  zero only when both operands are negative zeros, and the positive zero otherwise.
\<close>

definition js_add :: "jsnum \<Rightarrow> jsnum \<Rightarrow> jsnum" where
  "js_add a b =
     (if a = NaN \<or> b = NaN then NaN
      else if is_inf a then (if is_inf b \<and> a \<noteq> b then NaN else a)
      else if is_inf b then b
      else if val a + val b = 0 then zero_of (negative a \<and> negative b)
      else round64 (val a + val b))"

text \<open>\<^verbatim>\<open>a - b\<close>\<close>

definition js_sub :: "jsnum \<Rightarrow> jsnum \<Rightarrow> jsnum" where
  "js_sub a b = js_add a (js_neg b)"

text \<open>\<^verbatim>\<open>a * b\<close>: an infinity times a zero is NaN; otherwise the sign is the product of
  the signs.\<close>

definition js_mul :: "jsnum \<Rightarrow> jsnum \<Rightarrow> jsnum" where
  "js_mul a b =
     (if a = NaN \<or> b = NaN then NaN
      else if is_inf a \<or> is_inf b
        then (if is_zero a \<or> is_zero b then NaN else inf_of (negative a \<noteq> negative b))
      else if val a * val b = 0 then zero_of (negative a \<noteq> negative b)
      else round64 (val a * val b))"

text \<open>
  \<^verbatim>\<open>a / b\<close>: an infinity by an infinity and a zero by a zero are NaN; a nonzero number by
  a zero is an infinity, and a finite number by an infinity is a zero, each with the
  product of the signs.
\<close>

definition js_div :: "jsnum \<Rightarrow> jsnum \<Rightarrow> jsnum" where
  "js_div a b =
     (if a = NaN \<or> b = NaN then NaN
      else if is_inf a then (if is_inf b then NaN else inf_of (negative a \<noteq> negative b))
      else if is_inf b then zero_of (negative a \<noteq> negative b)
      else if is_zero b
        then (if is_zero a then NaN else inf_of (negative a \<noteq> negative b))
      else if is_zero a then zero_of (negative a \<noteq> negative b)
      else round64 (val a / val b))"

text \<open>
  \<^verbatim>\<open>Math.pow(base, exponent)\<close>, following the steps of \<open>Number::exponentiate\<close> in
  ECMA-262. \<open>is_odd_integer\<close> is the test "exponent is an odd integral Number". The last
  step, for a finite nonzero base and a finite nonzero exponent, is left to the host by the
  standard ("an implementation-approximated Number value representing the result of raising
  base to the power exponent"): it is the parameter \<open>approx\<close> of the model, like the clock
  and the network of the fetch below.
\<close>

fun is_odd_integer :: "jsnum \<Rightarrow> bool" where
  "is_odd_integer (Fin e) = (e = of_int \<lfloor>e\<rfloor> \<and> odd \<lfloor>e\<rfloor>)"
| "is_odd_integer _ = False"

definition js_pow :: "(real \<Rightarrow> real \<Rightarrow> jsnum) \<Rightarrow> jsnum \<Rightarrow> jsnum \<Rightarrow> jsnum" where
  "js_pow approx base exponent =
     (if exponent = NaN then NaN
      else if is_zero exponent then Fin 1
      else if base = NaN then NaN
      else if base = PInf then (if negative exponent then Fin 0 else PInf)
      else if base = NInf
        then (if negative exponent
              then (if is_odd_integer exponent then NegZero else Fin 0)
              else (if is_odd_integer exponent then NInf else PInf))
      else if base = Fin 0 then (if negative exponent then PInf else Fin 0)
      else if base = NegZero
        then (if negative exponent
              then (if is_odd_integer exponent then NInf else PInf)
              else (if is_odd_integer exponent then NegZero else Fin 0))
      else if exponent = PInf
        then (if 1 < \<bar>val base\<bar> then PInf else if \<bar>val base\<bar> = 1 then NaN else Fin 0)
      else if exponent = NInf
        then (if 1 < \<bar>val base\<bar> then Fin 0 else if \<bar>val base\<bar> = 1 then NaN else PInf)
      else if val base < 0 \<and> val exponent \<noteq> of_int \<lfloor>val exponent\<rfloor> then NaN
      else approx (val base) (val exponent))"

text \<open>
  One host: the power rounded to nearest. It serves where a statement needs a host to be
  named; no statement below depends on how a host approximates a power other than a power
  of the base 1, whose exact value 1 is a binary64 number.
\<close>

definition nearest_pow :: "real \<Rightarrow> real \<Rightarrow> jsnum" where
  "nearest_pow x e = round64 (if 0 < x then x powr e else x powi \<lfloor>e\<rfloor>)"

text \<open>\<^verbatim>\<open>a === b\<close> on numbers: NaN is equal to nothing, not even to itself, and the two
  zeros are equal.\<close>

definition js_strict_eq :: "jsnum \<Rightarrow> jsnum \<Rightarrow> bool" where
  "js_strict_eq a b =
     (if a = NaN \<or> b = NaN then False
      else if is_zero a \<and> is_zero b then True
      else a = b)"

text \<open>A finite number below zero.\<close>

fun is_negative_number :: "jsnum \<Rightarrow> bool" where
  "is_negative_number (Fin x) = (x < 0)"
| "is_negative_number _ = False"

section \<open>Amortization\<close>

text \<open>
  \<^verbatim>\<open>
  function calculateMonthlyPayment(principal, annualRate, years) {
      const monthlyRate = annualRate / 100 / 12;
      const numPayments = years * 12;
      if (monthlyRate === 0) {
          return principal / numPayments;
      }
      return principal *
          (monthlyRate * Math.pow(1 + monthlyRate, numPayments)) /
          (Math.pow(1 + monthlyRate, numPayments) - 1);
  }
  \<close>
  The function has no \<^verbatim>\<open>throw\<close> and no validation: for number arguments it always
  returns a number. Its first argument in the model is the host's approximation of a
  power.
\<close>

definition calculateMonthlyPayment ::
  "(real \<Rightarrow> real \<Rightarrow> jsnum) \<Rightarrow> jsnum \<Rightarrow> jsnum \<Rightarrow> jsnum \<Rightarrow> jsnum" where
  "calculateMonthlyPayment approx principal' annualRate years =
     (let monthlyRate = js_div (js_div annualRate (Fin 100)) (Fin 12);
          numPayments = js_mul years (Fin 12)
      in if js_strict_eq monthlyRate (Fin 0) then js_div principal' numPayments
         else js_div
                (js_mul principal'
                   (js_mul monthlyRate
                      (js_pow approx (js_add (Fin 1) monthlyRate) numPayments)))
                (js_sub (js_pow approx (js_add (Fin 1) monthlyRate) numPayments) (Fin 1)))"

text \<open>
  \<^verbatim>\<open>
  function calculateTotalInterest(principal, monthlyPayment, years) {
      return (monthlyPayment * years * 12) - principal;
  }
  \<close>
\<close>

definition calculateTotalInterest :: "jsnum \<Rightarrow> jsnum \<Rightarrow> jsnum \<Rightarrow> jsnum" where
  "calculateTotalInterest principal' monthlyPayment years =
     js_sub (js_mul (js_mul monthlyPayment years) (Fin 12)) principal'"

section \<open>JavaScript values\<close>

text \<open>
  The values that reach the code: what \<^verbatim>\<open>response.json()\<close> can resolve with (null,
  booleans, numbers, strings, arrays, objects), \<^verbatim>\<open>undefined\<close>, the result of reading a
  property that is not there, and the built-in functions and objects that every object
  inherits from \<^verbatim>\<open>Object.prototype\<close>. An object is the list of its own properties; a
  built-in is named by the property under which \<^verbatim>\<open>Object.prototype\<close> holds it.
\<close>

datatype jsval =
    JUndefined
  | JNull
  | JBool bool
  | JNum jsnum
  | JStr string
  | JArr "jsval list"
  | JObj "(string \<times> jsval) list"
  | JBuiltin string

text \<open>
  What a call can throw. \<open>TransportError\<close> is the rejection of \<^verbatim>\<open>fetch\<close>,
  \<open>ApiError\<close> the \<^verbatim>\<open>Error\<close> thrown at line 174 with the status in its message,
  \<open>JsonSyntaxError\<close> the rejection of \<^verbatim>\<open>response.json()\<close> on a body that is not
  JSON, \<open>TypeError\<close> the error of reading a property of \<^verbatim>\<open>null\<close> or
  \<^verbatim>\<open>undefined\<close>.
\<close>

datatype js_error = TransportError | ApiError nat | JsonSyntaxError | TypeError

text \<open>
  The properties of \<^verbatim>\<open>Object.prototype\<close> (ECMA-262, sections 20.1.3 and B.2.2): eleven
  functions and the accessor \<^verbatim>\<open>__proto__\<close>. A plain object, whether written as a literal
  or parsed from JSON, inherits them all.
\<close>

definition object_prototype_keys :: "string list" where
  "object_prototype_keys =
    [''constructor'', ''hasOwnProperty'', ''isPrototypeOf'', ''propertyIsEnumerable'',
     ''toLocaleString'', ''toString'', ''valueOf'', ''__proto__'',
     ''__defineGetter__'', ''__defineSetter__'', ''__lookupGetter__'', ''__lookupSetter__'']"

text \<open>
  \<^verbatim>\<open>v.key\<close> and \<^verbatim>\<open>v[key]\<close>. Reading a property of \<^verbatim>\<open>undefined\<close> or \<^verbatim>\<open>null\<close>
  throws. An object yields its own property if it has one of that name, else the built-in
  it inherits under that name if there is one, else \<^verbatim>\<open>undefined\<close>. On a boolean, a
  number, a string, an array or a built-in, the names that this program reads from such
  values (\<^verbatim>\<open>rates\<close>, \<^verbatim>\<open>thirtyYear\<close>, \<^verbatim>\<open>fifteenYear\<close>, \<^verbatim>\<open>rate\<close>,
  \<^verbatim>\<open>source\<close>, \<^verbatim>\<open>lastUpdated\<close>, \<^verbatim>\<open>error\<close>) are properties of no prototype and
  read as \<^verbatim>\<open>undefined\<close>; other names on those values are outside this model.
\<close>

fun get_prop :: "jsval \<Rightarrow> string \<Rightarrow> js_error + jsval" where
  "get_prop JUndefined key = Inl TypeError"
| "get_prop JNull key = Inl TypeError"
| "get_prop (JObj props) key =
     (case map_of props key of
        Some v \<Rightarrow> Inr v
      | None \<Rightarrow> if key \<in> set object_prototype_keys then Inr (JBuiltin key)
                else Inr JUndefined)"
| "get_prop _ key = Inr JUndefined"

text \<open>Sequencing of evaluations that may throw: the first error ends the evaluation.\<close>

fun and_then :: "js_error + 'a \<Rightarrow> ('a \<Rightarrow> js_error + 'b) \<Rightarrow> js_error + 'b" where
  "and_then (Inl e) f = Inl e"
| "and_then (Inr v) f = f v"

text \<open>
  Truthiness, as \<^verbatim>\<open>!v\<close> and \<^verbatim>\<open>v ? a : b\<close> test it: \<^verbatim>\<open>undefined\<close>, \<^verbatim>\<open>null\<close>,
  \<^verbatim>\<open>false\<close>, zero, NaN and the empty string are falsy, everything else is truthy.
\<close>

fun truthy :: "jsval \<Rightarrow> bool" where
  "truthy JUndefined = False"
| "truthy JNull = False"
| "truthy (JBool b) = b"
| "truthy (JNum n) = (\<not> is_zero n \<and> n \<noteq> NaN)"
| "truthy (JStr s) = (s \<noteq> [])"
| "truthy (JArr xs) = True"
| "truthy (JObj props) = True"
| "truthy (JBuiltin f) = True"

section \<open>County tax rates\<close>

text \<open>The own properties of the object literal \<^verbatim>\<open>TEXAS_COUNTY_TAX_RATES\<close>, and the
  object itself.\<close>

definition county_entries :: "(string \<times> jsval) list" where
  "county_entries =
    [(''harris'', JObj [(''name'', JStr ''Harris County (Houston)''), (''rate'', JNum (number_literal 2.23))]),
     (''dallas'', JObj [(''name'', JStr ''Dallas County''), (''rate'', JNum (number_literal 2.18))]),
     (''tarrant'', JObj [(''name'', JStr ''Tarrant County (Fort Worth)''), (''rate'', JNum (number_literal 2.26))]),
     (''bexar'', JObj [(''name'', JStr ''Bexar County (San Antonio)''), (''rate'', JNum (number_literal 2.23))]),
     (''travis'', JObj [(''name'', JStr ''Travis County (Austin)''), (''rate'', JNum (number_literal 2.11))]),
     (''collin'', JObj [(''name'', JStr ''Collin County''), (''rate'', JNum (number_literal 2.17))]),
     (''denton'', JObj [(''name'', JStr ''Denton County''), (''rate'', JNum (number_literal 2.16))]),
     (''hidalgo'', JObj [(''name'', JStr ''Hidalgo County''), (''rate'', JNum (number_literal 2.15))]),
     (''fortbend'', JObj [(''name'', JStr ''Fort Bend County''), (''rate'', JNum (number_literal 2.48))]),
     (''williamson'', JObj [(''name'', JStr ''Williamson County''), (''rate'', JNum (number_literal 2.21))]),
     (''montgomery'', JObj [(''name'', JStr ''Montgomery County''), (''rate'', JNum (number_literal 2.27))]),
     (''elpaso'', JObj [(''name'', JStr ''El Paso County''), (''rate'', JNum (number_literal 2.53))]),
     (''cameron'', JObj [(''name'', JStr ''Cameron County''), (''rate'', JNum (number_literal 2.05))]),
     (''nueces'', JObj [(''name'', JStr ''Nueces County (Corpus Christi)''), (''rate'', JNum (number_literal 2.24))]),
     (''brazoria'', JObj [(''name'', JStr ''Brazoria County''), (''rate'', JNum (number_literal 2.35))]),
     (''bell'', JObj [(''name'', JStr ''Bell County''), (''rate'', JNum (number_literal 2.38))]),
     (''galveston'', JObj [(''name'', JStr ''Galveston County''), (''rate'', JNum (number_literal 2.32))]),
     (''lubbock'', JObj [(''name'', JStr ''Lubbock County''), (''rate'', JNum (number_literal 2.01))]),
     (''webb'', JObj [(''name'', JStr ''Webb County (Laredo)''), (''rate'', JNum (number_literal 2.38))]),
     (''jefferson'', JObj [(''name'', JStr ''Jefferson County (Beaumont)''), (''rate'', JNum (number_literal 2.28))])]"

definition TEXAS_COUNTY_TAX_RATES :: jsval where
  "TEXAS_COUNTY_TAX_RATES = JObj county_entries"

text \<open>
  \<^verbatim>\<open>
  function getCountyTaxRate(countyKey) {
      const county = TEXAS_COUNTY_TAX_RATES[countyKey];
      return county ? county.rate : 2.20; // Default to ~2.2% if not found
  }
  \<close>
  The key is a string. The result is the value returned, or the error thrown.
\<close>

definition getCountyTaxRate :: "string \<Rightarrow> js_error + jsval" where
  "getCountyTaxRate countyKey =
     and_then (get_prop TEXAS_COUNTY_TAX_RATES countyKey)
       (\<lambda>county. if truthy county then get_prop county ''rate'' else Inr (JNum (number_literal 2.20)))"

text \<open>A call has returned a number: it has not thrown, and its value is of type number.\<close>

fun returns_number :: "js_error + jsval \<Rightarrow> bool" where
  "returns_number (Inr (JNum n)) = True"
| "returns_number _ = False"

section \<open>Mortgage rates: cache and fetch\<close>

text \<open>The object that \<^verbatim>\<open>fetchMortgageRates\<close> builds and returns.\<close>

record snapshot =
  thirtyYear :: jsval
  fifteenYear :: jsval
  source :: jsval
  lastUpdated :: jsval
  isLive :: bool

text \<open>
  \<^verbatim>\<open>
  let cachedRates = null;
  let ratesCacheTime = null;
  const RATES_CACHE_DURATION = 60 * 60 * 1000; // 1 hour
  \<close>
  The two module variables are the state; \<open>None\<close> is \<^verbatim>\<open>null\<close>. A time is a number
  of milliseconds, as \<^verbatim>\<open>Date.now()\<close> returns it.
\<close>

record cache_state =
  cachedRates :: "snapshot option"
  ratesCacheTime :: "int option"

definition initial_cache :: cache_state where
  "initial_cache = \<lparr>cachedRates = None, ratesCacheTime = None\<rparr>"

definition RATES_CACHE_DURATION :: int where
  "RATES_CACHE_DURATION = 60 * 60 * 1000"

text \<open>
  What the surroundings of one call supply: the readings of the clock and the behaviour of
  the network. \<^verbatim>\<open>fetch\<close> either rejects or resolves with a response, whose
  \<^verbatim>\<open>json()\<close> either rejects or resolves with a value. A call reads the clock at up to
  two places: in the freshness test (line 167) and then either when it stores a result
  (line 186) or when it builds the fallback (line 198, as an ISO-8601 string).
\<close>

datatype json_outcome = JsonRejected | JsonResolved jsval

record response =
  ok :: bool
  status :: nat
  json :: json_outcome

datatype fetch_outcome = FetchRejected | FetchResolved response

record environment =
  date_now_check :: int
  network :: fetch_outcome
  date_now_store :: int
  iso_now :: string

text \<open>
  \<^verbatim>\<open>cachedRates && ratesCacheTime && (Date.now() - ratesCacheTime < RATES_CACHE_DURATION)\<close>:
  \<^verbatim>\<open>null\<close> is falsy, an object is truthy, and a number is truthy unless it is zero.
\<close>

definition cache_is_fresh :: "cache_state \<Rightarrow> int \<Rightarrow> bool" where
  "cache_is_fresh c now =
     (cachedRates c \<noteq> None \<and>
      (case ratesCacheTime c of
         None \<Rightarrow> False
       | Some t \<Rightarrow> t \<noteq> 0 \<and> now - t < RATES_CACHE_DURATION))"

text \<open>
  The object literal of lines 179 to 185. Its property reads are evaluated in order, before
  anything is assigned, and any of them may throw.
  \<^verbatim>\<open>
  {
      thirtyYear: data.rates.thirtyYear.rate,
      fifteenYear: data.rates.fifteenYear.rate,
      source: data.source,
      lastUpdated: data.lastUpdated,
      isLive: !data.error
  }
  \<close>
\<close>

definition rates_literal :: "jsval \<Rightarrow> js_error + snapshot" where
  "rates_literal data =
     and_then (and_then (and_then (get_prop data ''rates'')
                 (\<lambda>rates. get_prop rates ''thirtyYear'')) (\<lambda>t. get_prop t ''rate''))
       (\<lambda>r30.
     and_then (and_then (and_then (get_prop data ''rates'')
                 (\<lambda>rates. get_prop rates ''fifteenYear'')) (\<lambda>f. get_prop f ''rate''))
       (\<lambda>r15.
     and_then (get_prop data ''source'') (\<lambda>src.
     and_then (get_prop data ''lastUpdated'') (\<lambda>upd.
     and_then (get_prop data ''error'') (\<lambda>err.
       Inr \<lparr>thirtyYear = r30, fifteenYear = r15, source = src, lastUpdated = upd,
            isLive = \<not> truthy err\<rparr>)))))"

text \<open>
  The body of the \<^verbatim>\<open>try\<close> block: its completion (an error thrown, or the value
  returned) and the state it leaves.
  \<^verbatim>\<open>
  const response = await fetch(RATES_API_URL);
  if (!response.ok) {
      throw new Error(`API error: ${response.status}`);
  }
  const data = await response.json();
  cachedRates = { ... };
  ratesCacheTime = Date.now();
  return cachedRates;
  \<close>
\<close>

definition try_block :: "environment \<Rightarrow> cache_state \<Rightarrow> (js_error + snapshot) \<times> cache_state" where
  "try_block env c =
     (case network env of
        FetchRejected \<Rightarrow> (Inl TransportError, c)
      | FetchResolved response \<Rightarrow>
          if \<not> ok response then (Inl (ApiError (status response)), c)
          else (case json response of
                  JsonRejected \<Rightarrow> (Inl JsonSyntaxError, c)
                | JsonResolved data \<Rightarrow>
                    (case rates_literal data of
                       Inl e \<Rightarrow> (Inl e, c)
                     | Inr s \<Rightarrow>
                         (Inr s, \<lparr>cachedRates = Some s,
                                  ratesCacheTime = Some (date_now_store env)\<rparr>))))"

text \<open>
  The object returned by the \<^verbatim>\<open>catch\<close> block.
  \<^verbatim>\<open>
  return {
      thirtyYear: 6.5,
      fifteenYear: 5.9,
      source: 'Fallback (offline)',
      lastUpdated: new Date().toISOString(),
      isLive: false
  };
  \<close>
\<close>

definition fallback_rates :: "string \<Rightarrow> snapshot" where
  "fallback_rates stamp =
     \<lparr>thirtyYear = JNum (number_literal 6.5), fifteenYear = JNum (number_literal 5.9),
      source = JStr ''Fallback (offline)'', lastUpdated = JStr stamp, isLive = False\<rparr>"

text \<open>
  One call of \<^verbatim>\<open>fetchMortgageRates\<close>, run to the settlement of its promise: how the
  promise settles (\<open>Inl\<close> rejected, \<open>Inr\<close> fulfilled), the state afterwards, and how many
  times \<^verbatim>\<open>fetch\<close> was called. Calls are taken one after the other; a second call that
  starts while the first is suspended at an \<^verbatim>\<open>await\<close> is not modelled, nor is a
  \<^verbatim>\<open>fetch\<close> that never settles. The \<^verbatim>\<open>catch\<close> block logs the error and returns the
  fallback, and assigns nothing.
  \<^verbatim>\<open>
  async function fetchMortgageRates() {
      if (cachedRates && ratesCacheTime && (Date.now() - ratesCacheTime < RATES_CACHE_DURATION)) {
          return cachedRates;
      }
      try { ... } catch (error) {
          console.error('Failed to fetch mortgage rates:', error);
          return { ... };
      }
  }
  \<close>
\<close>

record call_result =
  returned :: "js_error + snapshot"
  cache_after :: cache_state
  network_calls :: nat

definition fetchMortgageRates :: "environment \<Rightarrow> cache_state \<Rightarrow> call_result" where
  "fetchMortgageRates env c =
     (case (cache_is_fresh c (date_now_check env), cachedRates c) of
        (True, Some s) \<Rightarrow> \<lparr>returned = Inr s, cache_after = c, network_calls = 0\<rparr>
      | _ \<Rightarrow>
          (case try_block env c of
             (Inr s, c') \<Rightarrow> \<lparr>returned = Inr s, cache_after = c', network_calls = 1\<rparr>
           | (Inl error, c') \<Rightarrow>
               \<lparr>returned = Inr (fallback_rates (iso_now env)), cache_after = c',
                network_calls = 1\<rparr>))"

section \<open>Vocabulary of the statements\<close>

text \<open>
  \<open>nullish v\<close>: \<open>v\<close> is \<^verbatim>\<open>undefined\<close> or \<^verbatim>\<open>null\<close>, the values whose properties cannot
  be read. \<open>member_of v key\<close>: the value of \<^verbatim>\<open>v.key\<close> where that read does not throw.
\<close>

fun nullish :: "jsval \<Rightarrow> bool" where
  "nullish JUndefined = True"
| "nullish JNull = True"
| "nullish _ = False"

definition member_of :: "jsval \<Rightarrow> string \<Rightarrow> jsval" where
  "member_of v key = (case get_prop v key of Inr x \<Rightarrow> x | Inl e \<Rightarrow> JUndefined)"

text \<open>
  The bodies on which a property read of the object literal throws: the body itself,
  \<^verbatim>\<open>data.rates\<close>, \<^verbatim>\<open>data.rates.thirtyYear\<close> or \<^verbatim>\<open>data.rates.fifteenYear\<close> is
  \<^verbatim>\<open>undefined\<close> or \<^verbatim>\<open>null\<close>.
\<close>

definition reads_throw :: "jsval \<Rightarrow> bool" where
  "reads_throw data =
     (nullish data \<or> nullish (member_of data ''rates'') \<or>
      nullish (member_of (member_of data ''rates'') ''thirtyYear'') \<or>
      nullish (member_of (member_of data ''rates'') ''fifteenYear''))"


text \<open>The two marks of the fallback on a snapshot.\<close>

definition fallback_marked :: "snapshot \<Rightarrow> bool" where
  "fallback_marked s = (isLive s = False \<and> source s = JStr ''Fallback (offline)'')"

section \<open>Example inputs\<close>

text \<open>Response bodies: a well-formed one, one that flags an error, and one whose
  thirty-year entry has no \<^verbatim>\<open>rate\<close>.\<close>

definition live_body :: jsval where
  "live_body =
     JObj [(''rates'', JObj [(''thirtyYear'', JObj [(''rate'', JNum (number_literal 6.84))]),
                             (''fifteenYear'', JObj [(''rate'', JNum (number_literal 6.02))])]),
           (''source'', JStr ''Freddie Mac''),
           (''lastUpdated'', JStr ''2025-01-09T00:00:00.000Z'')]"

definition degraded_body :: jsval where
  "degraded_body =
     JObj [(''rates'', JObj [(''thirtyYear'', JObj [(''rate'', JNum (number_literal 6.84))]),
                             (''fifteenYear'', JObj [(''rate'', JNum (number_literal 6.02))])]),
           (''source'', JStr ''Freddie Mac''),
           (''lastUpdated'', JStr ''2025-01-09T00:00:00.000Z''),
           (''error'', JBool True)]"

definition missing_rate_body :: jsval where
  "missing_rate_body =
     JObj [(''rates'', JObj [(''thirtyYear'', JObj []),
                             (''fifteenYear'', JObj [(''rate'', JNum (number_literal 6.02))])]),
           (''source'', JStr ''Freddie Mac''),
           (''lastUpdated'', JStr ''2025-01-09T00:00:00.000Z'')]"

definition no_rates_body :: jsval where
  "no_rates_body = JObj [(''source'', JStr ''Freddie Mac'')]"



text \<open>A 200 response with the given body, and an environment whose clock reads \<open>t\<close>
  throughout the call.\<close>

definition responds :: "jsval \<Rightarrow> fetch_outcome" where
  "responds body = FetchResolved \<lparr>ok = True, status = 200, json = JsonResolved body\<rparr>"

definition env_at :: "int \<Rightarrow> fetch_outcome \<Rightarrow> environment" where
  "env_at t net =
     \<lparr>date_now_check = t, network = net, date_now_store = t,
      iso_now = ''2025-01-09T12:00:00.000Z''\<rparr>"


section \<open>Property reads and the try block\<close>

lemma get_prop_eq:
  "get_prop v key = (if nullish v then Inl TypeError else Inr (member_of v key))"
  by (cases v) (simp_all add: member_of_def split: option.split)

text \<open>The object literal throws exactly on the bodies of \<open>reads_throw\<close>, with a
  \<open>TypeError\<close>, and otherwise copies what it reads, whatever it is.\<close>

lemma rates_literal_eq:
  "rates_literal data =
     (if reads_throw data then Inl TypeError
      else Inr \<lparr>thirtyYear = member_of (member_of (member_of data ''rates'') ''thirtyYear'') ''rate'',
                fifteenYear = member_of (member_of (member_of data ''rates'') ''fifteenYear'') ''rate'',
                source = member_of data ''source'',
                lastUpdated = member_of data ''lastUpdated'',
                isLive = \<not> truthy (member_of data ''error'')\<rparr>)"
  by (simp add: rates_literal_def reads_throw_def get_prop_eq)

text \<open>The three kinds of failure, as the try block meets them.\<close>

lemma try_block_transport:
  "network env = FetchRejected \<Longrightarrow> try_block env c = (Inl TransportError, c)"
  by (simp add: try_block_def)

lemma try_block_protocol:
  "network env = FetchResolved r \<Longrightarrow> \<not> ok r \<Longrightarrow>
   try_block env c = (Inl (ApiError (status r)), c)"
  by (simp add: try_block_def)

lemma try_block_not_json:
  "network env = FetchResolved r \<Longrightarrow> ok r \<Longrightarrow> json r = JsonRejected \<Longrightarrow>
   try_block env c = (Inl JsonSyntaxError, c)"
  by (simp add: try_block_def)

lemma try_block_body:
  "network env = FetchResolved r \<Longrightarrow> ok r \<Longrightarrow> json r = JsonResolved data \<Longrightarrow>
   try_block env c =
     (if reads_throw data then (Inl TypeError, c)
      else (case rates_literal data of
              Inr s \<Rightarrow> (Inr s, \<lparr>cachedRates = Some s,
                                 ratesCacheTime = Some (date_now_store env)\<rparr>)
            | Inl e \<Rightarrow> (Inl e, c)))"
  by (simp add: try_block_def rates_literal_eq)

text \<open>A try block that throws has assigned nothing.\<close>

lemma try_block_error_keeps_cache:
  "fst (try_block env c) = Inl e \<Longrightarrow> snd (try_block env c) = c"
  by (auto simp: try_block_def
      split: fetch_outcome.splits json_outcome.splits sum.splits if_splits)

lemma try_block_success_stores:
  "fst (try_block env c) = Inr s \<Longrightarrow>
   snd (try_block env c) = \<lparr>cachedRates = Some s, ratesCacheTime = Some (date_now_store env)\<rparr>"
  by (auto simp: try_block_def
      split: fetch_outcome.splits json_outcome.splits sum.splits if_splits)

section \<open>One call\<close>

lemma fetch_stale:
  "\<not> cache_is_fresh c (date_now_check env) \<Longrightarrow>
   fetchMortgageRates env c =
     (case try_block env c of
        (Inr s, c') \<Rightarrow> \<lparr>returned = Inr s, cache_after = c', network_calls = 1\<rparr>
      | (Inl error, c') \<Rightarrow>
          \<lparr>returned = Inr (fallback_rates (iso_now env)), cache_after = c',
           network_calls = 1\<rparr>)"
  by (simp add: fetchMortgageRates_def)

lemma fetch_fresh:
  "cache_is_fresh c (date_now_check env) \<Longrightarrow> cachedRates c = Some s \<Longrightarrow>
   fetchMortgageRates env c = \<lparr>returned = Inr s, cache_after = c, network_calls = 0\<rparr>"
  by (simp add: fetchMortgageRates_def)

lemma fresh_has_snapshot: "cache_is_fresh c now \<Longrightarrow> \<exists>s. cachedRates c = Some s"
  by (auto simp: cache_is_fresh_def)

lemma initial_stale: "\<not> cache_is_fresh initial_cache now"
  by (simp add: cache_is_fresh_def initial_cache_def)

text \<open>A cache that is stale stays stale as long as the clock does not go back.\<close>

lemma stale_later: "\<not> cache_is_fresh c t \<Longrightarrow> t \<le> t' \<Longrightarrow> \<not> cache_is_fresh c t'"
  by (auto simp: cache_is_fresh_def split: option.splits)

lemma fetch_failure:
  assumes "\<not> cache_is_fresh c (date_now_check env)" and "fst (try_block env c) = Inl e"
  shows "fetchMortgageRates env c =
           \<lparr>returned = Inr (fallback_rates (iso_now env)), cache_after = c,
            network_calls = 1\<rparr>"
proof -
  from assms(2) have "try_block env c = (Inl e, c)"
    using try_block_error_keeps_cache[OF assms(2)] by (cases "try_block env c") simp
  with assms(1) show ?thesis by (simp add: fetch_stale)
qed

lemma fetch_success:
  assumes "\<not> cache_is_fresh c (date_now_check env)" and "fst (try_block env c) = Inr s"
  shows "fetchMortgageRates env c =
           \<lparr>returned = Inr s,
            cache_after = \<lparr>cachedRates = Some s, ratesCacheTime = Some (date_now_store env)\<rparr>,
            network_calls = 1\<rparr>"
proof -
  from assms(2) have "try_block env c =
      (Inr s, \<lparr>cachedRates = Some s, ratesCacheTime = Some (date_now_store env)\<rparr>)"
    using try_block_success_stores[OF assms(2)] by (cases "try_block env c") simp
  with assms(1) show ?thesis by (simp add: fetch_stale)
qed

section \<open>The example inputs, evaluated\<close>

lemma live_literal:
  "rates_literal live_body =
     Inr \<lparr>thirtyYear = JNum (number_literal 6.84), fifteenYear = JNum (number_literal 6.02),
          source = JStr ''Freddie Mac'', lastUpdated = JStr ''2025-01-09T00:00:00.000Z'',
          isLive = True\<rparr>"
  by (simp add: rates_literal_def live_body_def object_prototype_keys_def)

lemma degraded_literal:
  "rates_literal degraded_body =
     Inr \<lparr>thirtyYear = JNum (number_literal 6.84), fifteenYear = JNum (number_literal 6.02),
          source = JStr ''Freddie Mac'', lastUpdated = JStr ''2025-01-09T00:00:00.000Z'',
          isLive = False\<rparr>"
  by (simp add: rates_literal_def degraded_body_def object_prototype_keys_def)

lemma missing_rate_literal:
  "rates_literal missing_rate_body =
     Inr \<lparr>thirtyYear = JUndefined, fifteenYear = JNum (number_literal 6.02),
          source = JStr ''Freddie Mac'', lastUpdated = JStr ''2025-01-09T00:00:00.000Z'',
          isLive = True\<rparr>"
  by (simp add: rates_literal_def missing_rate_body_def object_prototype_keys_def)

lemma no_rates_literal: "rates_literal no_rates_body = Inl TypeError"
  by (simp add: rates_literal_def no_rates_body_def object_prototype_keys_def)

lemma try_block_responds:
  "try_block (env_at t (responds body)) c =
     (case rates_literal body of
        Inl e \<Rightarrow> (Inl e, c)
      | Inr s \<Rightarrow> (Inr s, \<lparr>cachedRates = Some s, ratesCacheTime = Some t\<rparr>))"
  by (simp add: try_block_def env_at_def responds_def split: sum.split)

section \<open>Failure of the fetch\<close>

text \<open>
  Against claim C1 as stated: the program starts with an empty cache, the first call finds
  the network down and returns the fallback, and the cache is still empty afterwards; a
  second call one second later, well inside the hour, calls \<^verbatim>\<open>fetch\<close> again.
\<close>

theorem fallback_is_not_stored:
  "cache_after (fetchMortgageRates (env_at 1000 FetchRejected) initial_cache) = initial_cache
   \<and> network_calls (fetchMortgageRates (env_at 2000 FetchRejected)
        (cache_after (fetchMortgageRates (env_at 1000 FetchRejected) initial_cache))) = 1"
  by (simp add: fetch_failure initial_stale try_block_transport env_at_def)

text \<open>
  Claim C1, amended: for every call to \<^verbatim>\<open>fetchMortgageRates\<close> whose cache is stale and
  whose try block throws (whatever the error \<open>e\<close>), the fallback snapshot is returned and
  the cache is left exactly as it was; so every subsequent call whose clock has not gone
  back finds the cache stale again and calls \<^verbatim>\<open>fetch\<close> once more.
\<close>

theorem fallback_not_cached:
  assumes "\<not> cache_is_fresh c (date_now_check env)" and "fst (try_block env c) = Inl e"
      and "date_now_check env \<le> date_now_check env'"
  shows "returned (fetchMortgageRates env c) = Inr (fallback_rates (iso_now env))
       \<and> cache_after (fetchMortgageRates env c) = c
       \<and> network_calls (fetchMortgageRates env' (cache_after (fetchMortgageRates env c))) = 1"
proof -
  have first: "fetchMortgageRates env c =
           \<lparr>returned = Inr (fallback_rates (iso_now env)), cache_after = c,
            network_calls = 1\<rparr>"
    using fetch_failure[OF assms(1,2)] .
  have "\<not> cache_is_fresh c (date_now_check env')"
    using stale_later[OF assms(1,3)] .
  then have "network_calls (fetchMortgageRates env' c) = 1"
    by (simp add: fetch_stale split: prod.split sum.split)
  with first show ?thesis by simp
qed

theorem fallback_not_cached_witness:
  "\<not> cache_is_fresh initial_cache (date_now_check (env_at 1000 FetchRejected))
   \<and> fst (try_block (env_at 1000 FetchRejected) initial_cache) = Inl TransportError
   \<and> date_now_check (env_at 1000 FetchRejected) \<le> date_now_check (env_at 2000 FetchRejected)
   \<and> returned (fetchMortgageRates (env_at 1000 FetchRejected) initial_cache) =
       Inr (fallback_rates ''2025-01-09T12:00:00.000Z'')
   \<and> cache_after (fetchMortgageRates (env_at 1000 FetchRejected) initial_cache) = initial_cache
   \<and> network_calls (fetchMortgageRates (env_at 2000 FetchRejected)
        (cache_after (fetchMortgageRates (env_at 1000 FetchRejected) initial_cache))) = 1"
proof -
  have h1: "\<not> cache_is_fresh initial_cache (date_now_check (env_at 1000 FetchRejected))"
    by (rule initial_stale)
  have h2: "fst (try_block (env_at 1000 FetchRejected) initial_cache) = Inl TransportError"
    by (simp add: try_block_def env_at_def)
  have h3: "date_now_check (env_at 1000 FetchRejected)
              \<le> date_now_check (env_at 2000 FetchRejected)"
    by (simp add: env_at_def)
  have h4: "iso_now (env_at 1000 FetchRejected) = ''2025-01-09T12:00:00.000Z''"
    by (simp add: env_at_def)
  show ?thesis using h1 h2 h3 fallback_not_cached[OF h1 h2 h3] unfolding h4 by blast
qed

section \<open>Liveness and source of a snapshot\<close>

text \<open>
  Against claim C2 as stated: a 200 response whose body carries \<^verbatim>\<open>error: true\<close> and
  \<^verbatim>\<open>source: "Freddie Mac"\<close> gives a snapshot that is not live and whose source is not
  the fallback's.
\<close>

theorem degraded_body_keeps_source:
  "returned (fetchMortgageRates (env_at 1000 (responds degraded_body)) initial_cache) =
     Inr \<lparr>thirtyYear = JNum (number_literal 6.84), fifteenYear = JNum (number_literal 6.02),
          source = JStr ''Freddie Mac'', lastUpdated = JStr ''2025-01-09T00:00:00.000Z'',
          isLive = False\<rparr>
   \<and> JStr ''Freddie Mac'' \<noteq> JStr ''Fallback (offline)''"
  by (simp add: fetch_stale initial_stale try_block_responds degraded_literal)

text \<open>
  Claim C2, amended: for every snapshot that a call with a stale cache builds, if the try
  block failed (the fetch was rejected, the status was not a success, the body was not JSON,
  or a property read threw) the snapshot has \<^verbatim>\<open>isLive = false\<close> and the source
  \<^verbatim>\<open>"Fallback (offline)"\<close>; otherwise it has \<^verbatim>\<open>isLive = !data.error\<close> and
  \<^verbatim>\<open>source = data.source\<close>, whatever the body says there. So a body that flags an error
  gives \<^verbatim>\<open>isLive = false\<close> with the provider's own source.
\<close>

theorem isLive_and_source:
  assumes "\<not> cache_is_fresh c (date_now_check env)"
      and "returned (fetchMortgageRates env c) = Inr s"
  shows "case network env of
           FetchRejected \<Rightarrow> fallback_marked s
         | FetchResolved r \<Rightarrow>
             if \<not> ok r then fallback_marked s
             else (case json r of
                     JsonRejected \<Rightarrow> fallback_marked s
                   | JsonResolved data \<Rightarrow>
                       if reads_throw data then fallback_marked s
                       else isLive s = (\<not> truthy (member_of data ''error'')) \<and>
                            source s = member_of data ''source'')"
proof (cases "network env")
  case FetchRejected
  with assms show ?thesis
    by (auto simp: fetch_stale try_block_transport fallback_marked_def fallback_rates_def)
next
  case (FetchResolved r)
  show ?thesis
  proof (cases "ok r")
    case False
    with FetchResolved assms show ?thesis
      by (auto simp: fetch_stale try_block_protocol fallback_marked_def fallback_rates_def)
  next
    case True
    show ?thesis
    proof (cases "json r")
      case JsonRejected
      with True FetchResolved assms show ?thesis
        by (auto simp: fetch_stale try_block_not_json fallback_marked_def fallback_rates_def)
    next
      case (JsonResolved data)
      with True FetchResolved assms show ?thesis
        by (auto simp: fetch_stale try_block_body rates_literal_eq fallback_marked_def
              fallback_rates_def split: if_splits)
    qed
  qed
qed

theorem isLive_and_source_witness:
  "\<not> cache_is_fresh initial_cache (date_now_check (env_at 1000 (responds degraded_body)))
   \<and> returned (fetchMortgageRates (env_at 1000 (responds degraded_body)) initial_cache) =
       Inr \<lparr>thirtyYear = JNum (number_literal 6.84), fifteenYear = JNum (number_literal 6.02),
            source = JStr ''Freddie Mac'', lastUpdated = JStr ''2025-01-09T00:00:00.000Z'',
            isLive = False\<rparr>
   \<and> \<not> reads_throw degraded_body
   \<and> truthy (member_of degraded_body ''error'')
   \<and> member_of degraded_body ''source'' = JStr ''Freddie Mac''"
proof -
  have h1: "\<not> cache_is_fresh initial_cache
              (date_now_check (env_at 1000 (responds degraded_body)))"
    by (rule initial_stale)
  have h2: "returned (fetchMortgageRates (env_at 1000 (responds degraded_body)) initial_cache) =
       Inr \<lparr>thirtyYear = JNum (number_literal 6.84), fifteenYear = JNum (number_literal 6.02),
            source = JStr ''Freddie Mac'', lastUpdated = JStr ''2025-01-09T00:00:00.000Z'',
            isLive = False\<rparr>"
    by (simp add: fetch_stale initial_stale try_block_responds degraded_literal)
  have h3: "\<not> reads_throw degraded_body"
    by (simp add: reads_throw_def degraded_body_def member_of_def object_prototype_keys_def)
  from isLive_and_source[OF h1 h2] h3
  have "truthy (member_of degraded_body ''error'')
        \<and> JStr ''Freddie Mac'' = member_of degraded_body ''source''"
    by (simp add: env_at_def responds_def)
  with h1 h2 h3 show ?thesis by simp
qed

section \<open>The cache within its hour\<close>

text \<open>
  Whenever the time stored with the snapshot is not zero, the cache serves its hour: after
  a call that found the cache stale and fetched a snapshot \<open>s\<close>, a call whose clock reads
  less than an hour past the stored time returns \<open>s\<close>, leaves the cache as it is and does
  not call \<^verbatim>\<open>fetch\<close>.
\<close>

lemma fresh_after_success:
  assumes "\<not> cache_is_fresh c (date_now_check env)" and "fst (try_block env c) = Inr s"
      and "date_now_store env \<noteq> 0"
      and "date_now_check env' - date_now_store env < RATES_CACHE_DURATION"
  shows "fetchMortgageRates env' (cache_after (fetchMortgageRates env c)) =
           \<lparr>returned = Inr s,
            cache_after = cache_after (fetchMortgageRates env c),
            network_calls = 0\<rparr>"
proof -
  have stored: "cache_after (fetchMortgageRates env c) =
      \<lparr>cachedRates = Some s, ratesCacheTime = Some (date_now_store env)\<rparr>"
    by (simp add: fetch_success[OF assms(1,2)])
  have "cache_is_fresh \<lparr>cachedRates = Some s, ratesCacheTime = Some (date_now_store env)\<rparr>
          (date_now_check env')"
    using assms(3,4) by (simp add: cache_is_fresh_def)
  then show ?thesis unfolding stored by (simp add: fetch_fresh)
qed

lemma time_zero_is_stale:
  "\<not> cache_is_fresh \<lparr>cachedRates = Some s, ratesCacheTime = Some 0\<rparr> now"
  by (simp add: cache_is_fresh_def)

lemma first_call_at_zero:
  "fetchMortgageRates (env_at 0 (responds live_body)) initial_cache =
     \<lparr>returned = Inr \<lparr>thirtyYear = JNum (number_literal 6.84), fifteenYear = JNum (number_literal 6.02),
          source = JStr ''Freddie Mac'', lastUpdated = JStr ''2025-01-09T00:00:00.000Z'',
          isLive = True\<rparr>,
      cache_after = \<lparr>cachedRates = Some \<lparr>thirtyYear = JNum (number_literal 6.84), fifteenYear = JNum (number_literal 6.02),
          source = JStr ''Freddie Mac'', lastUpdated = JStr ''2025-01-09T00:00:00.000Z'',
          isLive = True\<rparr>, ratesCacheTime = Some 0\<rparr>,
      network_calls = 1\<rparr>"
  by (simp add: fetch_stale initial_stale try_block_responds live_literal)

text \<open>
  Claim C3 at a clock that reads zero: the first call succeeds and stores its snapshot with
  the time \<open>0\<close>; the second call comes 1000 milliseconds later, inside the hour, and yet
  calls \<^verbatim>\<open>fetch\<close> again, because the test \<^verbatim>\<open>cachedRates && ratesCacheTime && ...\<close>
  takes the stored time \<open>0\<close> for an absent one.
\<close>

theorem cache_time_zero_refetches:
  "cache_after (fetchMortgageRates (env_at 0 (responds live_body)) initial_cache) =
     \<lparr>cachedRates = Some \<lparr>thirtyYear = JNum (number_literal 6.84), fifteenYear = JNum (number_literal 6.02),
          source = JStr ''Freddie Mac'', lastUpdated = JStr ''2025-01-09T00:00:00.000Z'',
          isLive = True\<rparr>, ratesCacheTime = Some 0\<rparr>
   \<and> 1000 - 0 < RATES_CACHE_DURATION
   \<and> network_calls (fetchMortgageRates (env_at 1000 (responds live_body))
        (cache_after (fetchMortgageRates (env_at 0 (responds live_body)) initial_cache))) = 1"
  by (simp add: first_call_at_zero fetch_stale time_zero_is_stale try_block_responds
        live_literal RATES_CACHE_DURATION_def)

section \<open>The fallback snapshot\<close>






text \<open>
  Claim C5: \<^verbatim>\<open>fetchMortgageRates\<close> never throws: for every state of the cache, every
  reading of the clock and every behaviour of the network that settles (a rejected fetch,
  a status outside the success range, a body that is not JSON, a body of any shape), the
  promise is fulfilled with a snapshot and never rejected.
\<close>

theorem fetchMortgageRates_never_throws:
  "\<exists>s. returned (fetchMortgageRates env c) = Inr s"
  by (auto simp: fetchMortgageRates_def split: prod.split sum.split bool.split option.split)

section \<open>Bodies that deviate from the expected shape\<close>

text \<open>
  Against claim C7 as stated: a 200 response whose body has an empty
  \<^verbatim>\<open>rates.thirtyYear\<close> object, so that \<^verbatim>\<open>rates.thirtyYear.rate\<close> is missing, is not
  treated as a failure. The call returns, and stores, a live snapshot whose thirty-year rate
  is \<^verbatim>\<open>undefined\<close>, and not the fallback.
\<close>

theorem missing_rate_is_accepted:
  "returned (fetchMortgageRates (env_at 1000 (responds missing_rate_body)) initial_cache) =
     Inr \<lparr>thirtyYear = JUndefined, fifteenYear = JNum (number_literal 6.02),
          source = JStr ''Freddie Mac'', lastUpdated = JStr ''2025-01-09T00:00:00.000Z'',
          isLive = True\<rparr>
   \<and> \<lparr>thirtyYear = JUndefined, fifteenYear = JNum (number_literal 6.02),
          source = JStr ''Freddie Mac'', lastUpdated = JStr ''2025-01-09T00:00:00.000Z'',
          isLive = True\<rparr>
       \<noteq> fallback_rates (iso_now (env_at 1000 (responds missing_rate_body)))"
  by (simp add: fetch_stale initial_stale try_block_responds missing_rate_literal
        fallback_rates_def)

text \<open>
  Claim C7, amended: on a stale cache and a response with a success status and a JSON body
  \<^verbatim>\<open>data\<close>, the call never crashes, and it yields the fallback, leaving the cache as it
  was, exactly when \<^verbatim>\<open>data\<close>, \<^verbatim>\<open>data.rates\<close>, \<^verbatim>\<open>data.rates.thirtyYear\<close> or
  \<^verbatim>\<open>data.rates.fifteenYear\<close> is \<^verbatim>\<open>undefined\<close> or \<^verbatim>\<open>null\<close>. Every other
  deviation (a rate, source or time that is missing or of the wrong type) is not detected:
  the values read are copied as they are into the snapshot, which is returned and stored.
\<close>

theorem body_deviation:
  assumes "\<not> cache_is_fresh c (date_now_check env)"
      and "network env = FetchResolved r" and "ok r" and "json r = JsonResolved data"
  shows "fetchMortgageRates env c =
          (if reads_throw data
           then \<lparr>returned = Inr (fallback_rates (iso_now env)), cache_after = c,
                 network_calls = 1\<rparr>
           else \<lparr>returned = Inr
                   \<lparr>thirtyYear =
                      member_of (member_of (member_of data ''rates'') ''thirtyYear'') ''rate'',
                    fifteenYear =
                      member_of (member_of (member_of data ''rates'') ''fifteenYear'') ''rate'',
                    source = member_of data ''source'',
                    lastUpdated = member_of data ''lastUpdated'',
                    isLive = \<not> truthy (member_of data ''error'')\<rparr>,
                 cache_after =
                   \<lparr>cachedRates = Some
                     \<lparr>thirtyYear =
                        member_of (member_of (member_of data ''rates'') ''thirtyYear'') ''rate'',
                      fifteenYear =
                        member_of (member_of (member_of data ''rates'') ''fifteenYear'') ''rate'',
                      source = member_of data ''source'',
                      lastUpdated = member_of data ''lastUpdated'',
                      isLive = \<not> truthy (member_of data ''error'')\<rparr>,
                    ratesCacheTime = Some (date_now_store env)\<rparr>,
                 network_calls = 1\<rparr>)"
  using assms by (simp add: fetch_stale try_block_body rates_literal_eq)

theorem body_deviation_witness:
  "\<not> cache_is_fresh initial_cache (date_now_check (env_at 1000 (responds no_rates_body)))
   \<and> network (env_at 1000 (responds no_rates_body)) =
       FetchResolved \<lparr>ok = True, status = 200, json = JsonResolved no_rates_body\<rparr>
   \<and> reads_throw no_rates_body
   \<and> fetchMortgageRates (env_at 1000 (responds no_rates_body)) initial_cache =
       \<lparr>returned = Inr (fallback_rates ''2025-01-09T12:00:00.000Z''),
        cache_after = initial_cache, network_calls = 1\<rparr>"
proof -
  have h1: "\<not> cache_is_fresh initial_cache
              (date_now_check (env_at 1000 (responds no_rates_body)))"
    by (rule initial_stale)
  have h2: "network (env_at 1000 (responds no_rates_body)) =
              FetchResolved \<lparr>ok = True, status = 200, json = JsonResolved no_rates_body\<rparr>"
    by (simp add: env_at_def responds_def)
  have h3: "reads_throw no_rates_body"
    by (simp add: reads_throw_def no_rates_body_def member_of_def object_prototype_keys_def)
  show ?thesis
    using h1 h2 h3 body_deviation[OF h1 h2, of no_rates_body] by (simp add: env_at_def)
qed

section \<open>Rounding to nearest\<close>

text \<open>
  The facts about \<open>round64\<close> that the statements on the calculators rest on: a number whose
  magnitude is at most \<open>2 powi 1023\<close> rounds to a finite number, with an error of at most
  half a unit of its binade (\<open>round64_core\<close>), hence of at most \<open>2 powi (- 53)\<close> of its
  magnitude when it is not subnormal (\<open>round64_error\<close>); a number between 1 and
  \<open>1 + 2 powi (- 54)\<close> rounds to 1 (\<open>round64_one_plus\<close>); and \<open>2 ^ 1024\<close> rounds to
  \<^verbatim>\<open>Infinity\<close> (\<open>round64_overflow\<close>).
\<close>

lemma rne_of_int: "rne (of_int z) = z"
  by (simp add: rne_def)

lemma rne_between: "\<lfloor>q\<rfloor> \<le> rne q \<and> rne q \<le> \<lfloor>q\<rfloor> + 1"
  by (simp add: rne_def Let_def)

lemma rne_lower: "of_int a \<le> q \<Longrightarrow> a \<le> rne q"
  using rne_between[of q] by (meson le_floor_iff order_trans)

lemma rne_upper: "q \<le> of_int b \<Longrightarrow> rne q \<le> b"
proof (cases "q = of_int b")
  case True then show ?thesis by (simp add: rne_of_int)
next
  case False
  assume "q \<le> of_int b"
  with False have "q < of_int b" by simp
  then have "\<lfloor>q\<rfloor> < b" by (simp add: floor_less_iff)
  with rne_between[of q] show ?thesis by linarith
qed

lemma rne_error: "\<bar>of_int (rne q) - q\<bar> \<le> 1 / 2"
proof -
  have "of_int \<lfloor>q\<rfloor> \<le> q" "q < of_int \<lfloor>q\<rfloor> + 1" by linarith+
  then show ?thesis
    by (auto simp: rne_def Let_def abs_le_iff)
qed

lemma two_powi_pos: "0 < (2::real) powi k"
  by simp

lemma two_powi_mono: "k \<le> j \<Longrightarrow> (2::real) powi k \<le> 2 powi j"
  by (rule power_int_increasing) simp_all

lemma two_powi_strict_mono: "k < j \<Longrightarrow> (2::real) powi k < 2 powi j"
  by (rule power_int_strict_increasing) simp_all

lemma two_powr_int: "2 powr (real_of_int k) = (2::real) powi k"
  by (simp add: powr_real_of_int')

lemma two_powr_int_Suc: "2 powr (real_of_int k + 1) = (2::real) powi (k + 1)"
  using two_powr_int[of "k + 1"] by simp

lemma floor_log2:
  assumes "0 < y"
  shows "2 powi \<lfloor>log 2 y\<rfloor> \<le> y" and "y < 2 powi (\<lfloor>log 2 y\<rfloor> + 1)"
proof -
  have "2 powr (of_int \<lfloor>log 2 y\<rfloor>) \<le> y \<and> y < 2 powr (of_int \<lfloor>log 2 y\<rfloor> + 1)"
    using floor_log_eq_powr_iff[of y 2 "\<lfloor>log 2 y\<rfloor>"] assms by simp
  then show "2 powi \<lfloor>log 2 y\<rfloor> \<le> y" and "y < 2 powi (\<lfloor>log 2 y\<rfloor> + 1)"
    by (simp_all only: two_powr_int two_powr_int_Suc)
qed

lemma floor_log2_eq:
  assumes "2 powi k \<le> y" and "y < 2 powi (k + 1)"
  shows "\<lfloor>log 2 y\<rfloor> = k"
proof -
  have "0 < y" using assms(1) two_powi_pos[of k] by linarith
  moreover have "2 powr (of_int k) \<le> y \<and> y < 2 powr (of_int k + 1)"
    using assms by (simp only: two_powr_int two_powr_int_Suc)
  ultimately show ?thesis using floor_log_eq_powr_iff[of y 2 k] by simp
qed

lemma expo_ge: "- 1022 \<le> expo x"
  by (simp add: expo_def)

lemma expo_upper: "x \<noteq> 0 \<Longrightarrow> \<bar>x\<bar> < 2 powi (expo x + 1)"
proof -
  assume "x \<noteq> 0"
  then have "\<bar>x\<bar> < 2 powi (\<lfloor>log 2 \<bar>x\<bar>\<rfloor> + 1)" using floor_log2(2)[of "\<bar>x\<bar>"] by simp
  also have "\<dots> \<le> 2 powi (expo x + 1)"
    by (rule two_powi_mono) (simp add: expo_def)
  finally show ?thesis .
qed

lemma expo_lower: "2 powi (- 1022) \<le> \<bar>x\<bar> \<Longrightarrow> 2 powi (expo x) \<le> \<bar>x\<bar>"
proof -
  assume a: "2 powi (- 1022) \<le> \<bar>x\<bar>"
  then have pos: "0 < \<bar>x\<bar>" using two_powi_pos[of "- 1022"] by linarith
  show ?thesis
  proof (cases "- 1022 \<le> \<lfloor>log 2 \<bar>x\<bar>\<rfloor>")
    case True
    then have "expo x = \<lfloor>log 2 \<bar>x\<bar>\<rfloor>" by (simp add: expo_def)
    then show ?thesis using floor_log2(1)[OF pos] by simp
  next
    case False
    then have "expo x = - 1022" by (simp add: expo_def)
    then show ?thesis using a by simp
  qed
qed

lemma expo_eq:
  assumes "2 powi k \<le> \<bar>x\<bar>" and "\<bar>x\<bar> < 2 powi (k + 1)" and "- 1022 \<le> k"
  shows "expo x = k"
  using floor_log2_eq[OF assms(1,2)] assms(3) by (simp add: expo_def)

lemma expo_le:
  assumes "x \<noteq> 0" and "\<bar>x\<bar> < 2 powi (k + 1)" and "- 1022 \<le> k"
  shows "expo x \<le> k"
proof -
  have "2 powi \<lfloor>log 2 \<bar>x\<bar>\<rfloor> \<le> \<bar>x\<bar>" using floor_log2(1)[of "\<bar>x\<bar>"] assms(1) by simp
  with assms(2) have "(2::real) powi \<lfloor>log 2 \<bar>x\<bar>\<rfloor> < 2 powi (k + 1)" by linarith
  then have "\<lfloor>log 2 \<bar>x\<bar>\<rfloor> < k + 1"
    by (meson not_less two_powi_mono)
  with assms(3) show ?thesis by (simp add: expo_def)
qed

lemma two_powi_half: "(2::real) powi (k - 53) = 2 powi (k - 52) / 2"
proof -
  have "(2::real) powi (k - 52) = 2 powi ((k - 53) + 1)" by simp
  also have "\<dots> = 2 powi (k - 53) * 2" by (subst power_int_add) simp_all
  finally show ?thesis by simp
qed

lemma round64_eval:
  assumes "x \<noteq> 0" and "expo x = e" and "rne (\<bar>x\<bar> / 2 powi (e - 52)) = m"
      and "of_int m * 2 powi (e - 52) = v"
  shows "round64 x =
           (if huge \<le> v then inf_of (x < 0)
            else if v = 0 then zero_of (x < 0)
            else Fin (if x < 0 then - v else v))"
  unfolding round64_def Let_def assms(2) assms(3) assms(4) using assms(1) by (simp only: if_False)

lemma round64_core:
  assumes "x \<noteq> 0" and "\<bar>x\<bar> \<le> 2 powi 1023"
  shows "is_finite (round64 x)"
    and "\<bar>val (round64 x) - x\<bar> \<le> 2 powi (expo x - 53)"
    and "x < 0 \<Longrightarrow> val (round64 x) \<le> 0"
    and "0 < x \<Longrightarrow> 0 \<le> val (round64 x)"
proof -
  define u :: real where "u = 2 powi (expo x - 52)"
  define v :: real where "v = of_int (rne (\<bar>x\<bar> / u)) * u"
  have u: "0 < u" by (simp add: u_def)
  have "\<bar>of_int (rne (\<bar>x\<bar> / u)) - \<bar>x\<bar> / u\<bar> \<le> 1 / 2" by (rule rne_error)
  then have "\<bar>of_int (rne (\<bar>x\<bar> / u)) - \<bar>x\<bar> / u\<bar> * u \<le> 1 / 2 * u"
    using u by (intro mult_right_mono) simp_all
  moreover have "\<bar>of_int (rne (\<bar>x\<bar> / u)) - \<bar>x\<bar> / u\<bar> * u = \<bar>v - \<bar>x\<bar>\<bar>"
  proof -
    have "\<bar>of_int (rne (\<bar>x\<bar> / u)) - \<bar>x\<bar> / u\<bar> * u
            = \<bar>(of_int (rne (\<bar>x\<bar> / u)) - \<bar>x\<bar> / u) * u\<bar>"
      using u by (simp add: abs_mult)
    also have "(of_int (rne (\<bar>x\<bar> / u)) - \<bar>x\<bar> / u) * u = v - \<bar>x\<bar>"
      using u by (simp add: v_def left_diff_distrib)
    finally show ?thesis .
  qed
  ultimately have err: "\<bar>v - \<bar>x\<bar>\<bar> \<le> u / 2" by simp
  have "0 \<le> rne (\<bar>x\<bar> / u)" using u by (intro rne_lower) simp
  then have v0: "0 \<le> v" using u by (simp add: v_def)
  have "\<bar>x\<bar> < 2 powi (1023 + 1)"
    using assms(2) two_powi_strict_mono[of 1023 1024] by simp
  then have "expo x \<le> 1023" using expo_le[OF assms(1), of 1023] by simp
  then have "u \<le> 2 powi 971" unfolding u_def by (intro two_powi_mono) simp
  moreover have "(2::real) powi 1023 + 2 powi 971 / 2 < huge" by (simp add: huge_def)
  moreover have "v \<le> \<bar>x\<bar> + u / 2" using err by linarith
  ultimately have v1: "v < huge" using assms(2) by linarith
  have "round64 x =
           (if huge \<le> v then inf_of (x < 0)
            else if v = 0 then zero_of (x < 0)
            else Fin (if x < 0 then - v else v))"
    unfolding v_def u_def by (rule round64_eval[OF assms(1) refl refl refl])
  then have r: "round64 x = (if v = 0 then zero_of (x < 0) else Fin (if x < 0 then - v else v))"
    using v1 by simp
  show "is_finite (round64 x)" by (simp add: r zero_of_def)
  have half: "2 powi (expo x - 53) = u / 2" by (simp add: u_def two_powi_half)
  have "val (round64 x) = (if x < 0 then - v else v)"
    by (simp add: r zero_of_def)
  then have "\<bar>val (round64 x) - x\<bar> = \<bar>v - \<bar>x\<bar>\<bar>" by (cases "x < 0") simp_all
  then show "\<bar>val (round64 x) - x\<bar> \<le> 2 powi (expo x - 53)"
    using err unfolding half by simp
  show "x < 0 \<Longrightarrow> val (round64 x) \<le> 0" using v0 by (simp add: r zero_of_def)
  show "0 < x \<Longrightarrow> 0 \<le> val (round64 x)" using v0 by (simp add: r zero_of_def)
qed

lemma round64_error:
  assumes "2 powi (- 1022) \<le> \<bar>x\<bar>" and "\<bar>x\<bar> \<le> 2 powi 1023"
  shows "\<exists>v. round64 x = Fin v \<and> \<bar>v - x\<bar> \<le> 2 powi (- 53) * \<bar>x\<bar>"
proof -
  have x0: "x \<noteq> 0" using assms(1) two_powi_pos[of "- 1022"] by auto
  have "(2::real) powi (expo x - 53) = 2 powi (- 53) * 2 powi (expo x)"
    by (subst power_int_add[symmetric]) simp_all
  also have "\<dots> \<le> 2 powi (- 53) * \<bar>x\<bar>"
    using expo_lower[OF assms(1)] by (intro mult_left_mono) simp_all
  finally have e: "\<bar>val (round64 x) - x\<bar> \<le> 2 powi (- 53) * \<bar>x\<bar>"
    using round64_core(2)[OF x0 assms(2)] by linarith
  have "(2::real) powi (- 53) * \<bar>x\<bar> < \<bar>x\<bar>" using x0 by (simp add: power_int_minus field_simps)
  with e have "val (round64 x) \<noteq> 0" by auto
  moreover have "is_finite (round64 x)" using round64_core(1)[OF x0 assms(2)] .
  ultimately obtain v where "round64 x = Fin v" by (cases "round64 x") auto
  with e show ?thesis by auto
qed




lemma round64_overflow: "round64 huge = PInf"
proof -
  have h: "huge = 2 powi 1024" by (simp add: huge_def)
  have e: "expo huge = 1024" unfolding h
    by (rule expo_eq) (simp_all del: power_int_numeral add: two_powi_strict_mono)
  have "\<bar>huge\<bar> / 2 powi (1024 - 52) = of_int (2 ^ 52)"
    by (simp add: huge_def)
  then have m: "rne (\<bar>huge\<bar> / 2 powi (1024 - 52)) = 2 ^ 52"
    by (simp only: rne_of_int)
  have v: "of_int (2 ^ 52) * 2 powi (1024 - 52) = huge" by (simp add: huge_def)
  have x0: "huge \<noteq> 0" by (simp add: huge_def)
  show ?thesis
    unfolding round64_eval[OF x0 e m v] by (simp add: inf_of_def huge_def)
qed

lemma expo_subnormal:
  assumes "x \<noteq> 0" and "\<bar>x\<bar> < 2 powi (- 1022)"
  shows "expo x = - 1022"
proof -
  have "2 powi \<lfloor>log 2 \<bar>x\<bar>\<rfloor> \<le> \<bar>x\<bar>" using floor_log2(1)[of "\<bar>x\<bar>"] assms(1) by simp
  with assms(2) have "(2::real) powi \<lfloor>log 2 \<bar>x\<bar>\<rfloor> < 2 powi (- 1022)" by linarith
  then have "\<lfloor>log 2 \<bar>x\<bar>\<rfloor> < - 1022" by (meson not_less two_powi_mono)
  then show ?thesis by (simp add: expo_def)
qed

lemma round64_error_abs:
  assumes "x \<noteq> 0" and "\<bar>x\<bar> \<le> 2 powi 1023"
  shows "is_finite (round64 x)"
    and "\<bar>val (round64 x) - x\<bar> \<le> 2 powi (- 53) * \<bar>x\<bar> + 2 powi (- 1075)"
proof -
  show "is_finite (round64 x)" by (rule round64_core(1)[OF assms])
  have c: "\<bar>val (round64 x) - x\<bar> \<le> 2 powi (expo x - 53)" by (rule round64_core(2)[OF assms])
  show "\<bar>val (round64 x) - x\<bar> \<le> 2 powi (- 53) * \<bar>x\<bar> + 2 powi (- 1075)"
  proof (cases "2 powi (- 1022) \<le> \<bar>x\<bar>")
    case True
    have "(2::real) powi (expo x - 53) = 2 powi (- 53) * 2 powi (expo x)"
      by (subst power_int_add[symmetric]) simp_all
    also have "\<dots> \<le> 2 powi (- 53) * \<bar>x\<bar>"
      using expo_lower[OF True] by (intro mult_left_mono) simp_all
    finally have "2 powi (expo x - 53) \<le> 2 powi (- 53) * \<bar>x\<bar>" .
    moreover have "0 \<le> (2::real) powi (- 1075)" by simp
    ultimately show ?thesis using c by linarith
  next
    case False
    then have "expo x = - 1022" using expo_subnormal[OF assms(1)] by simp
    then have "(2::real) powi (expo x - 53) = 2 powi (- 1075)" by simp
    moreover have "0 \<le> 2 powi (- 53) * \<bar>x\<bar>" by simp
    ultimately show ?thesis using c by linarith
  qed
qed

section \<open>The operations on finite numbers\<close>

text \<open>Away from zeros, infinities and NaN, a product or a quotient is the exact one,
  rounded; an integer below \<open>2 ^ 53\<close> is a binary64 number.\<close>

lemma js_mul_Fin: "x * y \<noteq> 0 \<Longrightarrow> js_mul (Fin x) (Fin y) = round64 (x * y)"
  by (simp add: js_mul_def)

lemma js_div_Fin: "x \<noteq> 0 \<Longrightarrow> y \<noteq> 0 \<Longrightarrow> js_div (Fin x) (Fin y) = round64 (x / y)"
  by (simp add: js_div_def)

lemma js_div_by_zero: "\<not> is_finite (js_div a (Fin 0))"
  by (cases a) (simp_all add: js_div_def inf_of_def)















lemma two_powi_add: "(2::real) powi (i + j) = 2 powi i * 2 powi j"
  by (simp add: power_int_add)

lemma scale_le:
  fixes x c :: real
  assumes "x \<le> 2 powi j" and "0 \<le> x" and "0 \<le> c" and "c \<le> 2 powi i"
  shows "c * x \<le> 2 powi (i + j)"
  unfolding two_powi_add using assms by (intro mult_mono) simp_all

lemma scale_ge:
  fixes x c :: real
  assumes "2 powi k \<le> x" and "2 powi i \<le> c"
  shows "2 powi (i + k) \<le> c * x"
proof -
  have "0 \<le> c" using assms(2) two_powi_pos[of i] by linarith
  then show ?thesis unfolding two_powi_add using assms by (intro mult_mono) simp_all
qed

lemma quot_le:
  fixes a b :: real
  assumes "0 \<le> a" and "a \<le> 2 powi j" and "2 powi k \<le> b"
  shows "a / b \<le> 2 powi (j - k)"
proof -
  have "a / b \<le> 2 powi j / 2 powi k"
    using assms by (intro frac_le) simp_all
  then show ?thesis by (simp add: power_int_diff)
qed

lemma quot_ge:
  fixes a b :: real
  assumes "2 powi k \<le> a" and "0 < b" and "b \<le> 2 powi j"
  shows "2 powi (k - j) \<le> a / b"
proof -
  have "0 \<le> a" using assms(1) two_powi_pos[of k] by linarith
  then have "2 powi k / 2 powi j \<le> a / b"
    using assms by (intro frac_le) simp_all
  then show ?thesis by (simp add: power_int_diff)
qed

lemma round64_normal:
  assumes "2 powi k \<le> \<bar>x\<bar>" and "\<bar>x\<bar> \<le> 2 powi j" and "- 1021 \<le> k" and "j \<le> 1022"
  shows "\<exists>v. round64 x = Fin v \<and> \<bar>v - x\<bar> \<le> 2 powi (- 53) * \<bar>x\<bar>
             \<and> 2 powi (k - 1) \<le> \<bar>v\<bar> \<and> \<bar>v\<bar> \<le> 2 powi (j + 1)"
proof -
  have lo: "2 powi (- 1022) \<le> \<bar>x\<bar>"
    using assms(1,3) two_powi_mono[of "- 1022" k] by simp
  have hi: "\<bar>x\<bar> \<le> 2 powi 1023"
    using assms(2,4) two_powi_mono[of j 1023] by simp
  from round64_error[OF lo hi] obtain v where
    v: "round64 x = Fin v" "\<bar>v - x\<bar> \<le> 2 powi (- 53) * \<bar>x\<bar>" by blast
  have "(2::real) powi (- 53) \<le> 1 / 2" by (simp add: power_int_minus)
  then have "2 powi (- 53) * \<bar>x\<bar> \<le> 1 / 2 * \<bar>x\<bar>" by (intro mult_right_mono) simp_all
  with v(2) have b: "\<bar>x\<bar> / 2 \<le> \<bar>v\<bar>" "\<bar>v\<bar> \<le> 2 * \<bar>x\<bar>" by linarith+
  have "(2::real) powi (k - 1) = 2 powi k / 2" by (simp add: power_int_diff)
  moreover have "(2::real) powi (j + 1) = 2 * 2 powi j" by (simp add: power_int_add)
  ultimately have "2 powi (k - 1) \<le> \<bar>v\<bar>" "\<bar>v\<bar> \<le> 2 powi (j + 1)"
    using b assms(1,2) by linarith+
  with v show ?thesis by blast
qed

lemma zero_monthly_rate: "js_div (js_div (Fin 0) (Fin 100)) (Fin 12) = Fin 0"
  by (simp add: js_div_def zero_of_def)

lemma zero_rate_quotient:
  assumes "2 powi (- 500) \<le> \<bar>p\<bar>" and "\<bar>p\<bar> \<le> 2 powi 500"
      and "2 powi (- 500) \<le> y" and "y \<le> 2 powi 500"
  shows "\<exists>v. calculateMonthlyPayment approx (Fin p) (Fin 0) (Fin y) = Fin v
             \<and> \<bar>v - p / (y * 12)\<bar> \<le> 2 powi (- 51) * \<bar>p / (y * 12)\<bar>"
proof -
  define E :: real where "E = 2 powi (- 53)"
  define N where "N = y * 12"
  have E0: "0 \<le> E" by (simp add: E_def)
  have y0: "0 < y" using assms(3) two_powi_pos[of "- 500"] by linarith
  have p0: "p \<noteq> 0" using assms(1) two_powi_pos[of "- 500"] by auto
  have N0: "0 < N" using y0 by (simp add: N_def)
  have "2 powi (3 + (- 500)) \<le> 12 * y" by (rule scale_ge[OF assms(3)]) simp
  then have Nlo: "2 powi (- 497) \<le> \<bar>N\<bar>" using N0 by (simp add: N_def mult.commute)
  have "12 * y \<le> 2 powi (4 + 500)" by (rule scale_le[OF assms(4)]) (use y0 in simp_all)
  then have Nhi: "\<bar>N\<bar> \<le> 2 powi 504" using N0 by (simp add: N_def mult.commute)
  from round64_normal[OF Nlo Nhi] obtain n where
    n: "round64 N = Fin n" "\<bar>n - N\<bar> \<le> E * \<bar>N\<bar>" "2 powi (- 498) \<le> \<bar>n\<bar>" "\<bar>n\<bar> \<le> 2 powi 505"
    unfolding E_def by auto
  have Ehalf: "E \<le> 1 / 2" by (simp add: E_def power_int_minus)
  then have "E * \<bar>N\<bar> \<le> 1 / 2 * \<bar>N\<bar>" by (intro mult_right_mono) simp_all
  with n(2) N0 have nN: "N / 2 \<le> n" by linarith
  then have n0: "0 < n" using N0 by linarith
  have np: "js_mul (Fin y) (Fin 12) = Fin n" using y0 n(1) by (simp add: js_mul_Fin N_def)
  define q' where "q' = p / n"
  define q where "q = p / N"
  have q'lo: "2 powi (- 500 - 505) \<le> \<bar>q'\<bar>"
    unfolding q'_def abs_divide using n(4) n0 by (intro quot_ge[OF assms(1)]) simp_all
  have q'hi: "\<bar>q'\<bar> \<le> 2 powi (500 - (- 498))"
    unfolding q'_def abs_divide using n(3) n0 by (intro quot_le[OF _ assms(2)]) simp_all
  from round64_normal[of "- 500 - 505" q' "500 - (- 498)"] q'lo q'hi obtain v where
    v: "round64 q' = Fin v" "\<bar>v - q'\<bar> \<le> E * \<bar>q'\<bar>"
    unfolding E_def by auto
  have res: "calculateMonthlyPayment approx (Fin p) (Fin 0) (Fin y) = Fin v"
    using p0 n0 v(1)
    by (simp add: calculateMonthlyPayment_def zero_monthly_rate js_strict_eq_def np js_div_Fin
        q'_def Let_def)
  have "q' - q = q' * ((N - n) / N)" using n0 N0 by (simp add: q'_def q_def field_simps)
  then have "\<bar>q' - q\<bar> = \<bar>q'\<bar> * (\<bar>n - N\<bar> / \<bar>N\<bar>)" by (simp add: abs_mult abs_minus_commute)
  moreover have "\<bar>n - N\<bar> / \<bar>N\<bar> \<le> E" using n(2) N0 by (simp add: field_simps)
  moreover from this have "\<bar>q'\<bar> * (\<bar>n - N\<bar> / \<bar>N\<bar>) \<le> \<bar>q'\<bar> * E" by (intro mult_left_mono) simp_all
  ultimately have h2: "\<bar>q' - q\<bar> \<le> \<bar>q'\<bar> * E" by (simp only:)
  have "\<bar>p\<bar> / n \<le> \<bar>p\<bar> / (N / 2)" using nN N0 by (intro divide_left_mono) simp_all
  moreover have "\<bar>p\<bar> / (N / 2) = 2 * (\<bar>p\<bar> / N)" by simp
  ultimately have "\<bar>p\<bar> / n \<le> 2 * (\<bar>p\<bar> / N)" by (simp only:)
  moreover have "\<bar>q'\<bar> = \<bar>p\<bar> / n" using n0 by (simp add: q'_def)
  moreover have "\<bar>q\<bar> = \<bar>p\<bar> / N" using N0 by (simp add: q_def)
  ultimately have h3: "\<bar>q'\<bar> \<le> 2 * \<bar>q\<bar>" by (simp only:)
  have h3': "\<bar>q'\<bar> * E \<le> 2 * (\<bar>q\<bar> * E)" using mult_right_mono[OF h3 E0] by simp
  have v2: "\<bar>v - q'\<bar> \<le> \<bar>q'\<bar> * E" using v(2) by (simp only: mult.commute)
  have "\<bar>v - q\<bar> \<le> 4 * (\<bar>q\<bar> * E)" using v2 h2 h3' by linarith
  moreover have "4 * (\<bar>q\<bar> * E) = (4 * E) * \<bar>q\<bar>" by simp
  moreover have "4 * E = 2 powi (- 51)" by (simp add: E_def power_int_minus)
  ultimately have "\<bar>v - q\<bar> \<le> 2 powi (- 51) * \<bar>q\<bar>" by (simp only:)
  then show ?thesis using res by (auto simp: q_def N_def)
qed

lemma negative_principal_zero_rate:
  assumes "2 powi (- 500) \<le> - p" and "- p \<le> 2 powi 500"
      and "2 powi (- 500) \<le> y" and "y \<le> 2 powi 500"
  shows "is_negative_number (calculateMonthlyPayment approx (Fin p) (Fin 0) (Fin y))"
proof -
  have p0: "p < 0" using assms(1) two_powi_pos[of "- 500"] by linarith
  have y0: "0 < y" using assms(3) two_powi_pos[of "- 500"] by linarith
  have ap: "\<bar>p\<bar> = - p" using p0 by simp
  from zero_rate_quotient[of p y approx] assms obtain v where
    v: "calculateMonthlyPayment approx (Fin p) (Fin 0) (Fin y) = Fin v"
       "\<bar>v - p / (y * 12)\<bar> \<le> 2 powi (- 51) * \<bar>p / (y * 12)\<bar>"
    unfolding ap by auto
  have q: "p / (y * 12) < 0" using p0 y0 by (simp add: divide_neg_pos)
  have "(2::real) powi (- 51) \<le> 1 / 2" by (simp add: power_int_minus)
  then have "2 powi (- 51) * \<bar>p / (y * 12)\<bar> \<le> 1 / 2 * \<bar>p / (y * 12)\<bar>"
    by (intro mult_right_mono) simp_all
  with v(2) q have "v < 0" by linarith
  with v(1) show ?thesis by simp
qed

lemma zero_term_not_finite: "\<not> is_finite (calculateMonthlyPayment approx (Fin p) (Fin 0) (Fin 0))"
  by (simp add: calculateMonthlyPayment_def zero_monthly_rate js_strict_eq_def js_mul_def
      zero_of_def js_div_by_zero Let_def)

lemma ordinary_magnitude:
  fixes x :: real
  assumes "1 \<le> x" and "x \<le> 2 ^ 30"
  shows "2 powi (- 500) \<le> x" and "x \<le> 2 powi 500"
proof -
  have "(2::real) powi (- 500) \<le> 2 powi 0" by (rule two_powi_mono) simp
  with assms(1) show "2 powi (- 500) \<le> x" by simp
  have "(2::real) powi 30 \<le> 2 powi 500" by (rule two_powi_mono) simp
  with assms(2) show "x \<le> 2 powi 500" by simp
qed

section \<open>The monthly payment\<close>




section \<open>Inputs outside the preconditions\<close>

text \<open>
  Against claim C8 as stated: the principal \<open>- 100000\<close> violates the precondition
  \<^verbatim>\<open>principal > 0\<close>, and at the rate 0 and 30 years the function returns a negative
  number, about \<open>- 277.78\<close>, as an ordinary result. It has no other way to end: the
  function has no \<^verbatim>\<open>throw\<close>, and its result is a number.
\<close>

theorem negative_principal_negative_payment:
  "is_negative_number (calculateMonthlyPayment nearest_pow (Fin (- 100000)) (Fin 0) (Fin 30))"
  by (rule negative_principal_zero_rate) (simp_all add: ordinary_magnitude)

text \<open>
  Claim C8, amended: \<^verbatim>\<open>calculateMonthlyPayment\<close> validates nothing and signals no error;
  on inputs that violate its preconditions it returns what its arithmetic yields. At the
  rate 0, for every negative principal of a magnitude between \<open>2 powi (- 500)\<close> and
  \<open>2 powi 500\<close> and every term in years in that range it returns a negative number; and for
  every principal, at the rate 0 and the term 0 it returns a value that is not finite.
\<close>

theorem no_validation_zero_rate:
  "(2 powi (- 500) \<le> - p \<and> - p \<le> 2 powi 500 \<and> 2 powi (- 500) \<le> y \<and> y \<le> 2 powi 500 \<longrightarrow>
      is_negative_number (calculateMonthlyPayment approx (Fin p) (Fin 0) (Fin y)))
   \<and> \<not> is_finite (calculateMonthlyPayment approx (Fin q) (Fin 0) (Fin 0))"
  using negative_principal_zero_rate[of p y approx] zero_term_not_finite[of approx q]
  by blast

theorem no_validation_zero_rate_witness:
  "2 powi (- 500) \<le> - (- 100000::real) \<and> - (- 100000::real) \<le> 2 powi 500
   \<and> 2 powi (- 500) \<le> (30::real) \<and> (30::real) \<le> 2 powi 500
   \<and> is_negative_number
       (calculateMonthlyPayment nearest_pow (Fin (- 100000)) (Fin 0) (Fin 30))
   \<and> \<not> is_finite (calculateMonthlyPayment nearest_pow (Fin 100000) (Fin 0) (Fin 0))"
proof -
  have h1: "2 powi (- 500) \<le> - (- 100000::real)" by (simp add: ordinary_magnitude)
  have h2: "- (- 100000::real) \<le> 2 powi 500" by (simp add: ordinary_magnitude)
  have h3: "2 powi (- 500) \<le> (30::real)" by (rule ordinary_magnitude) simp_all
  have h4: "(30::real) \<le> 2 powi 500" by (rule ordinary_magnitude) simp_all
  show ?thesis
    using h1 h2 h3 h4 no_validation_zero_rate[of "- 100000" 30 nearest_pow 100000]
    by blast
qed

section \<open>The total interest\<close>

lemma total_interest_bounds:
  assumes "2 powi (- 500) \<le> \<bar>m\<bar>" and "\<bar>m\<bar> \<le> 2 powi 500"
      and "2 powi (- 500) \<le> \<bar>y\<bar>" and "\<bar>y\<bar> \<le> 2 powi 500"
      and "\<bar>p\<bar> \<le> 2 powi 1000"
  shows "is_finite (calculateTotalInterest (Fin p) (Fin m) (Fin y))"
    and "\<bar>val (calculateTotalInterest (Fin p) (Fin m) (Fin y)) - (m * y * 12 - p)\<bar>
           \<le> 2 powi (- 50) * (\<bar>m * y * 12\<bar> + \<bar>p\<bar>)"
proof -
  define E :: real where "E = 2 powi (- 53)"
  define X where "X = m * y"
  define eX where "eX = E * \<bar>X\<bar>"
  define eP where "eP = E * \<bar>p\<bar>"
  define tiny :: real where "tiny = 2 powi (- 1075)"
  have E0: "0 \<le> E" by (simp add: E_def)
  have Ehalf: "E \<le> 1 / 2" by (simp add: E_def power_int_minus)
  have "2 powi (- 500 + - 500) \<le> \<bar>m\<bar> * \<bar>y\<bar>" by (rule scale_ge[OF assms(3,1)])
  then have Xlo: "2 powi (- 1000) \<le> \<bar>X\<bar>" by (simp add: X_def abs_mult)
  have "\<bar>m\<bar> * \<bar>y\<bar> \<le> 2 powi (500 + 500)" by (rule scale_le[OF assms(4) _ _ assms(2)]) simp_all
  then have Xhi: "\<bar>X\<bar> \<le> 2 powi 1000" by (simp add: X_def abs_mult)
  have X0: "X \<noteq> 0" using Xlo two_powi_pos[of "- 1000"] by auto
  from round64_normal[OF Xlo Xhi] obtain a where
    a: "round64 X = Fin a" "\<bar>a - X\<bar> \<le> eX" "2 powi (- 1001) \<le> \<bar>a\<bar>" "\<bar>a\<bar> \<le> 2 powi 1001"
    unfolding E_def eX_def by auto
  have a0: "a \<noteq> 0" using a(3) two_powi_pos[of "- 1001"] by auto
  have m1: "js_mul (Fin m) (Fin y) = Fin a" using X0 a(1) by (simp add: js_mul_Fin X_def)
  have "2 powi (3 + (- 1001)) \<le> 12 * \<bar>a\<bar>" by (rule scale_ge[OF a(3)]) simp
  then have lo2: "2 powi (- 998) \<le> \<bar>a * 12\<bar>" by (simp add: abs_mult mult.commute)
  have "12 * \<bar>a\<bar> \<le> 2 powi (4 + 1001)" by (rule scale_le[OF a(4)]) simp_all
  then have hi2: "\<bar>a * 12\<bar> \<le> 2 powi 1005" by (simp add: abs_mult mult.commute)
  from round64_normal[OF lo2 hi2] obtain b where
    b: "round64 (a * 12) = Fin b" "\<bar>b - a * 12\<bar> \<le> E * \<bar>a * 12\<bar>" "\<bar>b\<bar> \<le> 2 powi 1006"
    unfolding E_def by auto
  have m2: "js_mul (Fin a) (Fin 12) = Fin b" using a0 b(1) by (simp add: js_mul_Fin)
  have eXh: "eX \<le> \<bar>X\<bar> / 2" unfolding eX_def using mult_right_mono[OF Ehalf, of "\<bar>X\<bar>"] by simp
  with a(2) have a2X: "\<bar>a\<bar> \<le> 2 * \<bar>X\<bar>" by linarith
  have "E * \<bar>a\<bar> \<le> E * (2 * \<bar>X\<bar>)" using a2X E0 by (intro mult_left_mono) simp_all
  then have Ea: "E * \<bar>a\<bar> \<le> 2 * eX" by (simp add: eX_def)
  have "E * \<bar>a * 12\<bar> = 12 * (E * \<bar>a\<bar>)" by (simp add: abs_mult)
  with b(2) Ea have b2: "\<bar>b - a * 12\<bar> \<le> 24 * eX" by linarith
  have D: "\<bar>b - X * 12\<bar> \<le> 36 * eX" using b2 a(2) by linarith
  have eX_X: "eX \<le> \<bar>X\<bar>" using eXh by simp
  define s where "s = b - p"
  have sb: "\<bar>s\<bar> \<le> 48 * \<bar>X\<bar> + \<bar>p\<bar>" unfolding s_def using D eX_X by linarith
  have "E * \<bar>s\<bar> \<le> E * (48 * \<bar>X\<bar> + \<bar>p\<bar>)" using sb E0 by (intro mult_left_mono) simp_all
  then have Es: "E * \<bar>s\<bar> \<le> 48 * eX + eP" by (simp add: eX_def eP_def algebra_simps)
  have t1: "E * 2 powi (- 1000) \<le> E * \<bar>X\<bar>" using Xlo E0 by (intro mult_left_mono) simp_all
  have t2: "E * 2 powi (- 1000) = 2 powi (- 53 + - 1000)" unfolding E_def two_powi_add ..
  have t3: "tiny \<le> 2 powi (- 53 + - 1000)" unfolding tiny_def by (rule two_powi_mono) simp
  have tiny: "tiny \<le> eX" unfolding eX_def using t1 t2 t3 by linarith
  have eP0: "0 \<le> eP" by (simp add: eP_def E0)
  have eX0: "0 \<le> eX" by (simp add: eX_def E0)
  let ?R = "calculateTotalInterest (Fin p) (Fin m) (Fin y)"
  have R: "?R = js_add (Fin b) (js_neg (Fin p))"
    by (simp add: calculateTotalInterest_def m1 m2 js_sub_def)
  have npv: "val (js_neg (Fin p)) = - p" "js_neg (Fin p) \<noteq> NaN" "\<not> is_inf (js_neg (Fin p))"
    by simp_all
  have fin_err: "is_finite ?R \<and> \<bar>val ?R - s\<bar> \<le> E * \<bar>s\<bar> + tiny"
  proof (cases "s = 0")
    case True
    then have "?R = zero_of (negative (Fin b) \<and> negative (js_neg (Fin p)))"
      unfolding R js_add_def using npv by (simp add: s_def)
    then have "is_finite ?R" "val ?R = 0" by (simp_all add: zero_of_def)
    then show ?thesis using True by (simp add: tiny_def)
  next
    case False
    then have Rr: "?R = round64 s"
      unfolding R js_add_def using npv by (simp add: s_def)
    have "(2::real) powi 1006 + 2 powi 1000 \<le> 2 powi 1023" by simp
    with b(3) assms(5) have "\<bar>s\<bar> \<le> 2 powi 1023" unfolding s_def by linarith
    from round64_error_abs[OF False this] show ?thesis
      unfolding Rr E_def tiny_def by simp
  qed
  then show "is_finite ?R" ..
  from fin_err have err: "\<bar>val ?R - s\<bar> \<le> E * \<bar>s\<bar> + tiny" ..
  have "m * y * 12 - p = X * 12 - p" by (simp add: X_def)
  moreover have "\<bar>val ?R - (X * 12 - p)\<bar> \<le> 8 * (12 * eX + eP)"
  proof -
    define es where "es = E * \<bar>s\<bar>"
    have 1: "\<bar>val ?R - s\<bar> \<le> es + tiny" using err by (simp add: es_def)
    have 2: "es \<le> 48 * eX + eP" using Es by (simp add: es_def)
    have 3: "s = b - p" by (rule s_def)
    have "val ?R - (X * 12 - p) = (val ?R - s) + (b - X * 12)" using 3 by simp
    then have 4: "\<bar>val ?R - (X * 12 - p)\<bar> \<le> \<bar>val ?R - s\<bar> + \<bar>b - X * 12\<bar>"
      by (simp only: abs_triangle_ineq)
    have "\<bar>val ?R - (X * 12 - p)\<bar> \<le> 96 * eX + 8 * eP"
      using 1 2 4 D eX0 tiny eP0 by linarith
    then show ?thesis by simp
  qed
  moreover have "8 * (12 * eX + eP) = 2 powi (- 50) * (\<bar>m * y * 12\<bar> + \<bar>p\<bar>)"
  proof -
    have "8 * E = 2 powi (- 50)" by (simp add: E_def power_int_minus)
    then have "2 powi (- 50) * (\<bar>m * y * 12\<bar> + \<bar>p\<bar>) = 8 * E * (\<bar>X\<bar> * 12 + \<bar>p\<bar>)"
      by (simp add: X_def abs_mult)
    also have "\<dots> = 8 * (12 * eX + eP)" by (simp add: eX_def eP_def algebra_simps)
    finally show ?thesis by simp
  qed
  ultimately show "\<bar>val ?R - (m * y * 12 - p)\<bar> \<le> 2 powi (- 50) * (\<bar>m * y * 12\<bar> + \<bar>p\<bar>)"
    by (simp only:)
qed

text \<open>
  Against claim C9 as stated: a principal of 0, a monthly payment of \<open>2 ^ 1023\<close> and 2
  years. The product \<^verbatim>\<open>monthlyPayment * years\<close> is \<open>2 ^ 1024\<close>, which overflows, and the
  result is \<^verbatim>\<open>Infinity\<close>, where the claim gives the number \<open>2 ^ 1023 * 2 * 12 - 0\<close>.
\<close>

theorem total_interest_overflows:
  "calculateTotalInterest (Fin 0) (Fin (2 ^ 1023)) (Fin 2) = PInf"
proof -
  have "round64 (2 ^ 1023 * 2) = PInf" using round64_overflow by (simp add: huge_def)
  then have "js_mul (Fin (2 ^ 1023)) (Fin 2) = PInf" by (simp add: js_mul_def)
  then show ?thesis
    by (simp add: calculateTotalInterest_def js_mul_def js_sub_def js_add_def inf_of_def)
qed

text \<open>
  Claim C9, amended: for every monthly payment and every term in years of a magnitude
  between \<open>2 powi (- 500)\<close> and \<open>2 powi 500\<close>, and every principal of a magnitude up to
  \<open>2 powi 1000\<close>, \<^verbatim>\<open>calculateTotalInterest\<close> returns a finite number that differs from
  \<open>monthlyPayment * years * 12 - principal\<close> by at most \<open>2 powi (- 50)\<close> times the sum of
  the magnitudes of \<open>monthlyPayment * years * 12\<close> and of the principal. Its three
  operations round, so the two are not equal in general, and outside these ranges the
  product overflows.
\<close>

theorem total_interest_error:
  assumes "2 powi (- 500) \<le> \<bar>m\<bar>" and "\<bar>m\<bar> \<le> 2 powi 500"
      and "2 powi (- 500) \<le> \<bar>y\<bar>" and "\<bar>y\<bar> \<le> 2 powi 500"
      and "\<bar>p\<bar> \<le> 2 powi 1000"
  shows "is_finite (calculateTotalInterest (Fin p) (Fin m) (Fin y))
       \<and> \<bar>val (calculateTotalInterest (Fin p) (Fin m) (Fin y)) - (m * y * 12 - p)\<bar>
           \<le> 2 powi (- 50) * (\<bar>m * y * 12\<bar> + \<bar>p\<bar>)"
  using total_interest_bounds[OF assms] by blast

theorem total_interest_error_witness:
  "2 powi (- 500) \<le> \<bar>1000::real\<bar> \<and> \<bar>1000::real\<bar> \<le> 2 powi 500
   \<and> 2 powi (- 500) \<le> \<bar>30::real\<bar> \<and> \<bar>30::real\<bar> \<le> 2 powi 500
   \<and> \<bar>200000::real\<bar> \<le> 2 powi 1000
   \<and> is_finite (calculateTotalInterest (Fin 200000) (Fin 1000) (Fin 30))
   \<and> \<bar>val (calculateTotalInterest (Fin 200000) (Fin 1000) (Fin 30))
        - (1000 * 30 * 12 - 200000)\<bar>
       \<le> 2 powi (- 50) * (\<bar>1000 * 30 * 12\<bar> + \<bar>200000\<bar>)"
proof -
  have h1: "2 powi (- 500) \<le> \<bar>1000::real\<bar>" by (simp add: ordinary_magnitude)
  have h2: "\<bar>1000::real\<bar> \<le> 2 powi 500" by (simp add: ordinary_magnitude)
  have h3: "2 powi (- 500) \<le> \<bar>30::real\<bar>" by (simp add: ordinary_magnitude)
  have h4: "\<bar>30::real\<bar> \<le> 2 powi 500" by (simp add: ordinary_magnitude)
  have "(200000::real) \<le> 2 powi 500" by (rule ordinary_magnitude) simp_all
  also have "\<dots> \<le> 2 powi 1000" by (rule two_powi_mono) simp
  finally have h5: "\<bar>200000::real\<bar> \<le> 2 powi 1000" by simp
  show ?thesis
    using h1 h2 h3 h4 h5 total_interest_error[OF h1 h2 h3 h4 h5] by blast
qed

section \<open>The county tax rate\<close>

lemma county_entry_has_rate:
  "map_of county_entries key = Some county \<Longrightarrow>
   truthy county \<and> (\<exists>n. get_prop county ''rate'' = Inr (JNum n))"
  by (auto simp: county_entries_def split: if_splits)

text \<open>A key of the table gives the rate tabulated for it, a number; a key that is neither
  in the table nor a property of \<^verbatim>\<open>Object.prototype\<close> gives the default.\<close>

lemma getCountyTaxRate_listed:
  assumes "map_of county_entries key = Some county"
  shows "getCountyTaxRate key = get_prop county ''rate''"
    and "\<exists>n. getCountyTaxRate key = Inr (JNum n)"
  using assms county_entry_has_rate[OF assms]
  by (auto simp: getCountyTaxRate_def TEXAS_COUNTY_TAX_RATES_def)

lemma getCountyTaxRate_default:
  "map_of county_entries key = None \<Longrightarrow> key \<notin> set object_prototype_keys \<Longrightarrow>
   getCountyTaxRate key = Inr (JNum (number_literal 2.20))"
  by (simp add: getCountyTaxRate_def TEXAS_COUNTY_TAX_RATES_def)

lemma getCountyTaxRate_inherited:
  "map_of county_entries key = None \<Longrightarrow> key \<in> set object_prototype_keys \<Longrightarrow>
   getCountyTaxRate key = Inr JUndefined"
  by (simp add: getCountyTaxRate_def TEXAS_COUNTY_TAX_RATES_def)

text \<open>It never throws.\<close>

lemma getCountyTaxRate_returns: "\<exists>v. getCountyTaxRate key = Inr v"
proof (cases "map_of county_entries key")
  case None
  then show ?thesis
    by (cases "key \<in> set object_prototype_keys")
       (simp_all add: getCountyTaxRate_default getCountyTaxRate_inherited)
next
  case (Some county)
  from getCountyTaxRate_listed(2)[OF this] show ?thesis by blast
qed

lemma getCountyTaxRate_travis: "getCountyTaxRate ''travis'' = Inr (JNum (number_literal 2.11))"
  by (simp add: getCountyTaxRate_def TEXAS_COUNTY_TAX_RATES_def county_entries_def)

lemma getCountyTaxRate_unknown: "getCountyTaxRate ''austin'' = Inr (JNum (number_literal 2.20))"
  by (simp add: getCountyTaxRate_def TEXAS_COUNTY_TAX_RATES_def county_entries_def
        object_prototype_keys_def)

text \<open>
  Claim C10 at the key \<^verbatim>\<open>"constructor"\<close>: it is not a key of the table, so the claim and
  the comment of the code promise the default 2.20; but
  \<^verbatim>\<open>TEXAS_COUNTY_TAX_RATES["constructor"]\<close> is the inherited function \<^verbatim>\<open>Object\<close>,
  which is truthy, and the result is its \<^verbatim>\<open>rate\<close>, that is \<^verbatim>\<open>undefined\<close>, which is
  not a number.
\<close>

theorem constructor_key_gives_undefined:
  "map_of county_entries ''constructor'' = None
   \<and> getCountyTaxRate ''constructor'' = Inr JUndefined
   \<and> \<not> returns_number (getCountyTaxRate ''constructor'')"
  by (simp add: getCountyTaxRate_def TEXAS_COUNTY_TAX_RATES_def county_entries_def
        object_prototype_keys_def)

end
